theory Spec2Isabelle
  imports Complex_Main "HOL-Library.Log_Nat"
begin

section \<open>Grid trading engine of nofx: the data model\<close>

text \<open>
  The grid control loop lives in the second Go file of \<^verbatim>\<open>src/trader/alpaca/trader.go\<close>
  (package \<^verbatim>\<open>trader\<close>): \<^verbatim>\<open>GridState\<close>, \<^verbatim>\<open>InitializeGrid\<close>, \<^verbatim>\<open>initializeGridLevels\<close>,
  \<^verbatim>\<open>executeGridDecision\<close>, \<^verbatim>\<open>placeGridLimitOrder\<close>, \<^verbatim>\<open>cancelGridOrder\<close>, \<^verbatim>\<open>cancelAllGridOrders\<close>,
  \<^verbatim>\<open>pauseGrid\<close>, \<^verbatim>\<open>resumeGrid\<close>, \<^verbatim>\<open>adjustGrid\<close>, \<^verbatim>\<open>syncGridState\<close> and
  \<^verbatim>\<open>checkAndExecuteStopLoss\<close>.

  Conventions of the embedding.
  \<^item> A Go \<^verbatim>\<open>float64\<close> is a \<^typ>\<open>real\<close>. In the stop-loss evaluation, which compares a
    computed value with a threshold, every operation is rounded as \<^verbatim>\<open>float64\<close> rounds it;
    elsewhere the arithmetic is exact. Overflow and the special values are not modelled.
    Go's float division by zero yields an infinity or NaN where HOL yields 0, so a statement
    that depends on a quotient carries the hypothesis that its divisor is not zero.
  \<^item> A Go \<^verbatim>\<open>int\<close> is an \<^typ>\<open>int\<close>; the counters are far from the 64-bit range.
  \<^item> A Go \<^verbatim>\<open>error\<close> result is \<open>None\<close> for \<^verbatim>\<open>nil\<close> and \<open>Some e\<close> otherwise; a result
    \<^verbatim>\<open>(value, error)\<close> is a sum with \<open>Inl\<close> for the error.
  \<^item> The exchange behind \<^verbatim>\<open>at.trader\<close> is a parameter: a record of response functions, each
    reading the list of requests sent so far (oldest first), so that any sequence of answers
    can be described. Every request is appended to that list.
  \<^item> The reader/writer lock \<^verbatim>\<open>mu\<close> and the field \<^verbatim>\<open>LastDailyReset\<close> (never read or written by this
    code) are left out; the code is run sequentially, one cycle at a time.
  \<^item> Field names are the source's; a name used by two structs gets a suffix
    (\<open>_cfg\<close>, \<open>_d\<close>, \<open>_req\<close>) in all but one of them.
\<close>

datatype error =
    ConfigError string
  | ExchangeError string
  | RiskViolation string
  | Panic string

text \<open>\<^verbatim>\<open>store.GridStrategyConfig\<close>, with the fields this code reads.\<close>

record GridStrategyConfig =
  Symbol_cfg :: string
  GridCount :: int
  TotalInvestment :: real
  Leverage_cfg :: int
  UpperPrice_cfg :: real
  LowerPrice_cfg :: real
  UseATRBounds :: bool
  ATRMultiplier :: real
  Distribution :: string
  StopLossPct :: real
  UseMakerOnly :: bool

text \<open>\<^verbatim>\<open>kernel.GridLevelInfo\<close>: one rung of the ladder. \<open>State\<close> and \<open>Side\<close> are strings in the source.\<close>

record GridLevelInfo =
  Index :: int
  Price :: real
  State :: string
  Side :: string
  AllocatedUSD :: real
  OrderID :: string
  OrderQuantity :: real
  PositionEntry :: real
  PositionSize :: real
  UnrealizedPnL :: real

record GridState =
  Config :: GridStrategyConfig
  Levels :: "GridLevelInfo list"
  UpperPrice :: real
  LowerPrice :: real
  GridSpacing :: real
  IsPaused :: bool
  IsInitialized :: bool
  TotalProfit :: real
  TotalTrades :: int
  WinningTrades :: int
  MaxDrawdown :: real
  PeakEquity :: real
  DailyPnL :: real
  OrderBook :: "string \<rightharpoonup> int"

text \<open>\<^verbatim>\<open>kernel.Decision\<close>, with the fields the grid executor reads.\<close>

record Decision =
  Action :: string
  Symbol_d :: string
  LevelIndex :: int
  Price_d :: real
  Quantity_d :: real
  OrderID_d :: string
  Reasoning :: string

text \<open>
  \<^verbatim>\<open>LimitOrderRequest\<close>. \<open>ClientID\<close> stands for the string \<^verbatim>\<open>grid-%d-%d\<close>: the level index and
  the clock reading (nanoseconds since 1970, not negative) modulo 1000000.
\<close>

record LimitOrderRequest =
  Symbol_req :: string
  Side_req :: string
  Price_req :: real
  Quantity_req :: real
  Leverage_req :: int
  PostOnly :: bool
  ReduceOnly :: bool
  ClientID :: "int \<times> int"

text \<open>
  A position is a \<^verbatim>\<open>map[string]interface{}\<close>; each field below is one key the code reads with
  a type assertion, \<open>None\<close> when the key is absent or holds another type.
\<close>

record Position =
  symbol_key :: "string option"
  positionAmt :: "real option"
  markPrice :: "real option"
  entryPrice :: "real option"
  unRealizedProfit :: "real option"

text \<open>\<^verbatim>\<open>market.Data\<close>: only \<^verbatim>\<open>LongerTermContext.ATR14\<close> is read; \<open>None\<close> is the nil context.\<close>

record MarketData =
  LongerTermContext_ATR14 :: "real option"

datatype call =
    Call_GetMarketPrice string
  | Call_GetPositions
  | Call_GetOpenOrders string
  | Call_SetLeverage string int
  | Call_CancelAllOrders string
  | Call_CloseLong string real
  | Call_CloseShort string real
  | Call_PlaceLimitOrder LimitOrderRequest
  | Call_CancelOrder string string
  | Call_GetWithTimeframes string

text \<open>
  The collaborators: the exchange interface (\<^verbatim>\<open>types.Trader\<close>, \<^verbatim>\<open>GridTrader\<close>), the market data
  service and the clock. \<open>GetOpenOrders\<close> answers with the \<^verbatim>\<open>OrderID\<close> of each open order, the
  only field read.
\<close>

record Trader =
  GetMarketPrice :: "call list \<Rightarrow> string \<Rightarrow> string + real"
  GetPositions :: "call list \<Rightarrow> string + Position list"
  GetOpenOrders :: "call list \<Rightarrow> string \<Rightarrow> string + string list"
  SetLeverage :: "call list \<Rightarrow> string \<Rightarrow> int \<Rightarrow> string option"
  CancelAllOrders :: "call list \<Rightarrow> string \<Rightarrow> string option"
  CloseLong :: "call list \<Rightarrow> string \<Rightarrow> real \<Rightarrow> string option"
  CloseShort :: "call list \<Rightarrow> string \<Rightarrow> real \<Rightarrow> string option"
  PlaceLimitOrder :: "call list \<Rightarrow> LimitOrderRequest \<Rightarrow> string + string"
  CancelOrder :: "call list \<Rightarrow> string \<Rightarrow> string \<Rightarrow> string option"
  GetWithTimeframes :: "call list \<Rightarrow> string \<Rightarrow> string + MarketData"
  UnixNano :: "call list \<Rightarrow> int"

text \<open>
  \<^verbatim>\<open>AutoTrader\<close>: \<open>GridConfig\<close> is \<^verbatim>\<open>at.config.StrategyConfig.GridConfig\<close> (\<open>None\<close> when either
  pointer is nil), \<open>gridState\<close> the pointer \<^verbatim>\<open>at.gridState\<close>, \<open>calls\<close> the requests sent so far.
\<close>

record AutoTrader =
  GridConfig :: "GridStrategyConfig option"
  gridState :: "GridState option"
  calls :: "call list"

section \<open>Grid geometry\<close>

definition NewGridState :: "GridStrategyConfig \<Rightarrow> GridState" where
  "NewGridState config =
     \<lparr> Config = config, Levels = [], UpperPrice = 0, LowerPrice = 0, GridSpacing = 0,
       IsPaused = False, IsInitialized = False, TotalProfit = 0, TotalTrades = 0,
       WinningTrades = 0, MaxDrawdown = 0, PeakEquity = 0, DailyPnL = 0,
       OrderBook = Map.empty \<rparr>"

definition calculateDefaultBounds :: "real \<Rightarrow> GridStrategyConfig \<Rightarrow> GridState \<Rightarrow> GridState" where
  "calculateDefaultBounds price config gs =
     (let multiplier = 0.03 * real_of_int (GridCount config) / 10
      in gs\<lparr> UpperPrice := price * (1 + multiplier), LowerPrice := price * (1 - multiplier) \<rparr>)"

definition calculateATRBounds ::
  "real \<Rightarrow> MarketData \<Rightarrow> GridStrategyConfig \<Rightarrow> GridState \<Rightarrow> GridState" where
  "calculateATRBounds price mktData config gs =
     (let atr = (case LongerTermContext_ATR14 mktData of None \<Rightarrow> 0 | Some a \<Rightarrow> a)
      in if atr \<le> 0 then calculateDefaultBounds price config gs
         else
           let multiplier = (if ATRMultiplier config \<le> 0 then 2 else ATRMultiplier config);
               halfRange = atr * multiplier
           in gs\<lparr> UpperPrice := price + halfRange, LowerPrice := price - halfRange \<rparr>)"

text \<open>
  The weight of level \<open>i\<close> (first loop of \<^verbatim>\<open>initializeGridLevels\<close>). \<^verbatim>\<open>math.Pow(x, 2)\<close> is the
  square \<open>x\<^sup>2\<close>.
\<close>

definition weight :: "GridStrategyConfig \<Rightarrow> nat \<Rightarrow> real" where
  "weight config i =
     (if Distribution config = ''gaussian'' then
        (let center = real_of_int (GridCount config - 1) / 2;
             sigma = real_of_int (GridCount config) / 4
         in exp (- ((real i - center) ^ 2) / (2 * sigma * sigma)))
      else if Distribution config = ''pyramid'' then real_of_int (GridCount config - int i)
      else 1)"

definition newLevel ::
  "real \<Rightarrow> GridStrategyConfig \<Rightarrow> GridState \<Rightarrow> real list \<Rightarrow> real \<Rightarrow> nat \<Rightarrow> GridLevelInfo" where
  "newLevel currentPrice config gs weights totalWeight i =
     (let price = LowerPrice gs + real i * GridSpacing gs;
          allocatedUSD = TotalInvestment config * (weights ! i) / totalWeight;
          side = (if price > currentPrice then ''sell'' else ''buy'')
      in \<lparr> Index = int i, Price = price, State = ''empty'', Side = side,
           AllocatedUSD = allocatedUSD, OrderID = '''', OrderQuantity = 0,
           PositionEntry = 0, PositionSize = 0, UnrealizedPnL = 0 \<rparr>)"

text \<open>
  \<^verbatim>\<open>initializeGridLevels\<close>. \<^verbatim>\<open>make\<close> panics on a negative length; otherwise both loops run over
  \<open>0 ..< GridCount\<close>, where \<open>weights ! i\<close> is in range.
\<close>

definition initializeGridLevels ::
  "real \<Rightarrow> GridStrategyConfig \<Rightarrow> GridState \<Rightarrow> error + GridState" where
  "initializeGridLevels currentPrice config gs =
     (if GridCount config < 0 then Inl (Panic ''makeslice: len out of range'')
      else
        let n = nat (GridCount config);
            weights = map (weight config) [0..<n];
            totalWeight = foldl (+) 0 weights;
            levels = map (newLevel currentPrice config gs weights totalWeight) [0..<n]
        in Inr (gs\<lparr> Levels := levels \<rparr>))"

text \<open>The bounds step of \<^verbatim>\<open>InitializeGrid\<close>: ATR bounds, default bounds, or the manual ones.\<close>

definition calculateBounds ::
  "Trader \<Rightarrow> real \<Rightarrow> GridStrategyConfig \<Rightarrow> GridState \<Rightarrow> call list \<Rightarrow> GridState \<times> call list" where
  "calculateBounds ex price config gs cs =
     (if UseATRBounds config then
        (case GetWithTimeframes ex cs (Symbol_cfg config) of
           Inl e \<Rightarrow>
             (calculateDefaultBounds price config gs,
              cs @ [Call_GetWithTimeframes (Symbol_cfg config)])
         | Inr mktData \<Rightarrow>
             (calculateATRBounds price mktData config gs,
              cs @ [Call_GetWithTimeframes (Symbol_cfg config)]))
      else (gs\<lparr> UpperPrice := UpperPrice_cfg config, LowerPrice := LowerPrice_cfg config \<rparr>, cs))"

text \<open>
  \<^verbatim>\<open>InitializeGrid\<close>. The fresh \<^verbatim>\<open>GridState\<close> is installed before the price is fetched, so it
  stays (not initialized) when a later step fails. A failure of \<^verbatim>\<open>SetLeverage\<close> is only logged.
\<close>

definition InitializeGrid :: "Trader \<Rightarrow> AutoTrader \<Rightarrow> error option \<times> AutoTrader" where
  "InitializeGrid ex a =
     (case GridConfig a of
        None \<Rightarrow> (Some (ConfigError ''grid configuration not found''), a)
      | Some gridConfig \<Rightarrow>
          let gs0 = NewGridState gridConfig;
              cs1 = calls a @ [Call_GetMarketPrice (Symbol_cfg gridConfig)]
          in case GetMarketPrice ex (calls a) (Symbol_cfg gridConfig) of
               Inl e \<Rightarrow>
                 (Some (ExchangeError (''failed to get market price: '' @ e)),
                  a\<lparr> gridState := Some gs0, calls := cs1 \<rparr>)
             | Inr price \<Rightarrow>
                 let (gs1, cs2) = calculateBounds ex price gridConfig gs0 cs1;
                     gs2 = gs1\<lparr> GridSpacing :=
                             (UpperPrice gs1 - LowerPrice gs1) / real_of_int (GridCount gridConfig - 1) \<rparr>
                 in case initializeGridLevels price gridConfig gs2 of
                      Inl p \<Rightarrow> (Some p, a\<lparr> gridState := Some gs2, calls := cs2 \<rparr>)
                    | Inr gs3 \<Rightarrow>
                        (None,
                         a\<lparr> gridState := Some (gs3\<lparr> IsInitialized := True \<rparr>),
                             calls := cs2 @ [Call_SetLeverage (Symbol_cfg gridConfig) (Leverage_cfg gridConfig)] \<rparr>))"

section \<open>Risk limiter\<close>

text \<open>
  The position loop of \<^verbatim>\<open>checkTotalPositionLimit\<close>: the last position of the symbol that carries
  a size and a mark (or else entry) price sets the value.
\<close>

fun positionValueLoop :: "string \<Rightarrow> Position list \<Rightarrow> real \<Rightarrow> real" where
  "positionValueLoop symbol [] currentPositionValue = currentPositionValue"
| "positionValueLoop symbol (pos # rest) currentPositionValue =
     positionValueLoop symbol rest
       (if symbol_key pos = Some symbol then
          (case positionAmt pos of
             None \<Rightarrow> currentPositionValue
           | Some posSize \<Rightarrow>
               (case markPrice pos of
                  Some price \<Rightarrow> \<bar>posSize\<bar> * price
                | None \<Rightarrow>
                    (case entryPrice pos of
                       Some entry \<Rightarrow> \<bar>posSize\<bar> * entry
                     | None \<Rightarrow> currentPositionValue)))
        else currentPositionValue)"

definition pendingValue :: "GridLevelInfo list \<Rightarrow> real" where
  "pendingValue levels =
     foldl (\<lambda>acc level. if State level = ''pending''
                         then acc + OrderQuantity level * Price level else acc) 0 levels"

text \<open>
  \<^verbatim>\<open>checkTotalPositionLimit\<close>: (allowed, current value, maximum), and the request list with the
  \<^verbatim>\<open>GetPositions\<close> request it sent. A failed fetch counts as no position.
\<close>

definition checkTotalPositionLimit ::
  "Trader \<Rightarrow> GridStrategyConfig \<Rightarrow> string \<Rightarrow> real \<Rightarrow> GridState \<Rightarrow> call list
     \<Rightarrow> (bool \<times> real \<times> real) \<times> call list" where
  "checkTotalPositionLimit ex gridConfig symbol additionalValue gs cs =
     (let maxTotalPositionValue = TotalInvestment gridConfig * real_of_int (Leverage_cfg gridConfig);
          currentPositionValue =
            (case GetPositions ex cs of
               Inl e \<Rightarrow> 0
             | Inr positions \<Rightarrow> positionValueLoop symbol positions 0);
          pending = pendingValue (Levels gs);
          totalAfterOrder = currentPositionValue + pending + additionalValue;
          allowed = (totalAfterOrder \<le> maxTotalPositionValue)
      in ((allowed, currentPositionValue + pending, maxTotalPositionValue),
          cs @ [Call_GetPositions]))"

text \<open>
  The per-level cap of \<^verbatim>\<open>placeGridLimitOrder\<close> (the variable \<^verbatim>\<open>maxQuantityPerLevel\<close> after the
  level-specific tightening), computed when \<^verbatim>\<open>d.Price > 0\<close> and \<^verbatim>\<open>TotalInvestment > 0\<close>.
\<close>

definition maxQuantityPerLevel :: "GridStrategyConfig \<Rightarrow> Decision \<Rightarrow> GridState \<Rightarrow> real" where
  "maxQuantityPerLevel gridConfig d gs =
     (let maxMarginPerLevel = TotalInvestment gridConfig / real_of_int (GridCount gridConfig);
          maxPositionValuePerLevel = maxMarginPerLevel * real_of_int (Leverage_cfg gridConfig);
          maxQuantity = maxPositionValuePerLevel / Price_d d;
          levelAllocatedUSD =
            (if LevelIndex d \<ge> 0 \<and> LevelIndex d < int (length (Levels gs))
             then AllocatedUSD (Levels gs ! nat (LevelIndex d)) else 0)
      in if levelAllocatedUSD > 0 then
           (let levelMaxPositionValue = levelAllocatedUSD * real_of_int (Leverage_cfg gridConfig);
                levelMaxQuantity = levelMaxPositionValue / Price_d d
            in if levelMaxQuantity < maxQuantity then levelMaxQuantity else maxQuantity)
         else maxQuantity)"

text \<open>The quantity after the cap: clamped to the maximum, never rejected at this step.\<close>

definition cappedQuantity :: "GridStrategyConfig \<Rightarrow> Decision \<Rightarrow> GridState \<Rightarrow> real" where
  "cappedQuantity gridConfig d gs =
     (if Quantity_d d > maxQuantityPerLevel gridConfig d gs
      then maxQuantityPerLevel gridConfig d gs else Quantity_d d)"

text \<open>
  The validation block of \<^verbatim>\<open>placeGridLimitOrder\<close>: the quantity to submit, or the rejection of
  the absolute safety check. The amounts of the error message are left out.
\<close>

definition validateQuantity :: "GridStrategyConfig \<Rightarrow> Decision \<Rightarrow> GridState \<Rightarrow> error + real" where
  "validateQuantity gridConfig d gs =
     (if Price_d d > 0 \<and> TotalInvestment gridConfig > 0 then
        (let quantity = cappedQuantity gridConfig d gs;
             positionValue = quantity * Price_d d;
             absoluteMaxValue =
               TotalInvestment gridConfig * real_of_int (Leverage_cfg gridConfig) * 2
         in if positionValue > absoluteMaxValue
            then Inl (RiskViolation ''position value exceeds safety limit'')
            else Inr quantity)
      else Inr (Quantity_d d))"

section \<open>Decision executor\<close>

text \<open>The state update after a successful submission, guarded by the index range.\<close>

definition recordOrder :: "Decision \<Rightarrow> string \<Rightarrow> GridState \<Rightarrow> GridState" where
  "recordOrder d orderID gs =
     (if LevelIndex d \<ge> 0 \<and> LevelIndex d < int (length (Levels gs)) then
        gs\<lparr> Levels := (Levels gs)[nat (LevelIndex d) :=
                (Levels gs ! nat (LevelIndex d))
                  \<lparr> State := ''pending'', OrderID := orderID, OrderQuantity := Quantity_d d \<rparr>],
            OrderBook := (OrderBook gs)(orderID \<mapsto> LevelIndex d) \<rparr>
      else gs)"

definition placeGridLimitOrder ::
  "Trader \<Rightarrow> GridStrategyConfig \<Rightarrow> Decision \<Rightarrow> string \<Rightarrow> GridState \<Rightarrow> call list
     \<Rightarrow> error option \<times> GridState \<times> call list" where
  "placeGridLimitOrder ex gridConfig d side gs cs =
     (case validateQuantity gridConfig d gs of
        Inl e \<Rightarrow> (Some e, gs, cs)
      | Inr quantity \<Rightarrow>
          let orderValue = quantity * Price_d d;
              ((allowed, currentValue, maxValue), cs1) =
                 checkTotalPositionLimit ex gridConfig (Symbol_d d) orderValue gs cs
          in if \<not> allowed
             then (Some (RiskViolation ''total position value would exceed limit''), gs, cs1)
             else
               let req = \<lparr> Symbol_req = Symbol_d d, Side_req = side, Price_req = Price_d d,
                           Quantity_req = quantity, Leverage_req = Leverage_cfg gridConfig,
                           PostOnly = UseMakerOnly gridConfig, ReduceOnly = False,
                           ClientID = (LevelIndex d, UnixNano ex cs1 mod 1000000) \<rparr>;
                   cs2 = cs1 @ [Call_PlaceLimitOrder req]
               in case PlaceLimitOrder ex cs1 req of
                    Inl e \<Rightarrow> (Some (ExchangeError (''failed to place limit order: '' @ e)), gs, cs2)
                  | Inr orderID \<Rightarrow> (None, recordOrder d orderID gs, cs2))"

definition resetLevel :: "GridLevelInfo \<Rightarrow> GridLevelInfo" where
  "resetLevel level = level\<lparr> State := ''empty'', OrderID := '''', OrderQuantity := 0 \<rparr>"

definition cancelGridOrder ::
  "Trader \<Rightarrow> Decision \<Rightarrow> GridState \<Rightarrow> call list \<Rightarrow> error option \<times> GridState \<times> call list" where
  "cancelGridOrder ex d gs cs =
     (let cs1 = cs @ [Call_CancelOrder (Symbol_d d) (OrderID_d d)]
      in case CancelOrder ex cs (Symbol_d d) (OrderID_d d) of
           Some e \<Rightarrow> (Some (ExchangeError (''failed to cancel order: '' @ e)), gs, cs1)
         | None \<Rightarrow>
             (case OrderBook gs (OrderID_d d) of
                None \<Rightarrow> (None, gs, cs1)
              | Some levelIdx \<Rightarrow>
                  let gs1 = (if levelIdx \<ge> 0 \<and> levelIdx < int (length (Levels gs))
                             then gs\<lparr> Levels := (Levels gs)[nat levelIdx :=
                                          resetLevel (Levels gs ! nat levelIdx)] \<rparr>
                             else gs)
                  in (None, gs1\<lparr> OrderBook := (OrderBook gs1)(OrderID_d d := None) \<rparr>, cs1)))"

definition cancelAllGridOrders ::
  "Trader \<Rightarrow> GridStrategyConfig \<Rightarrow> GridState \<Rightarrow> call list
     \<Rightarrow> error option \<times> GridState \<times> call list" where
  "cancelAllGridOrders ex gridConfig gs cs =
     (let cs1 = cs @ [Call_CancelAllOrders (Symbol_cfg gridConfig)]
      in case CancelAllOrders ex cs (Symbol_cfg gridConfig) of
           Some e \<Rightarrow> (Some (ExchangeError (''failed to cancel all orders: '' @ e)), gs, cs1)
         | None \<Rightarrow>
             (None,
              gs\<lparr> Levels := map (\<lambda>level. if State level = ''pending''
                                          then resetLevel level else level) (Levels gs),
                  OrderBook := Map.empty \<rparr>,
              cs1))"

text \<open>\<^verbatim>\<open>pauseGrid\<close> and \<^verbatim>\<open>adjustGrid\<close> drop the error of \<^verbatim>\<open>cancelAllGridOrders\<close>.\<close>

definition pauseGrid ::
  "Trader \<Rightarrow> GridStrategyConfig \<Rightarrow> GridState \<Rightarrow> call list
     \<Rightarrow> error option \<times> GridState \<times> call list" where
  "pauseGrid ex gridConfig gs cs =
     (let (ignored, gs1, cs1) = cancelAllGridOrders ex gridConfig gs cs
      in (None, gs1\<lparr> IsPaused := True \<rparr>, cs1))"

definition resumeGrid :: "GridState \<Rightarrow> call list \<Rightarrow> error option \<times> GridState \<times> call list" where
  "resumeGrid gs cs = (None, gs\<lparr> IsPaused := False \<rparr>, cs)"

definition adjustGrid ::
  "Trader \<Rightarrow> GridStrategyConfig \<Rightarrow> GridState \<Rightarrow> call list
     \<Rightarrow> error option \<times> GridState \<times> call list" where
  "adjustGrid ex gridConfig gs cs =
     (let (ignored, gs1, cs1) = cancelAllGridOrders ex gridConfig gs cs;
          cs2 = cs1 @ [Call_GetMarketPrice (Symbol_cfg gridConfig)]
      in case GetMarketPrice ex cs1 (Symbol_cfg gridConfig) of
           Inl e \<Rightarrow> (Some (ExchangeError (''failed to get market price: '' @ e)), gs1, cs2)
         | Inr price \<Rightarrow>
             (case initializeGridLevels price gridConfig gs1 of
                Inl p \<Rightarrow> (Some p, gs1, cs2)
              | Inr gs2 \<Rightarrow> (None, gs2, cs2)))"

section \<open>Arithmetic of \<^verbatim>\<open>float64\<close> in the stop-loss evaluation\<close>

text \<open>
  The stop-loss evaluation compares a computed percentage with a threshold, so the rounding
  of its operations decides the outcome at the boundary. Its arithmetic is therefore modelled
  with the rounding of IEEE 754 binary64, to the nearest value with ties to even: the result
  of an operation is the exact result rounded to a multiple of \<open>2 powi e\<close>, where \<open>e\<close> is the
  exponent of the last place of a significand of 53 bits, and at least -1074 (the subnormal
  range). An overflow to an infinity (a magnitude of \<open>2 ^ 1024\<close> or more) is not modelled.

  \<open>ilog2 x\<close> is the integer part of the binary logarithm of a positive \<open>x\<close>, and
  \<open>roundToEven\<close> is \<^verbatim>\<open>math.RoundToEven\<close>.
\<close>

definition ilog2 :: "real \<Rightarrow> int" where
  "ilog2 x = (if 1 \<le> x then bitlen \<lfloor>x\<rfloor> - 1 else - bitlen (\<lceil>1 / x\<rceil> - 1))"

definition roundToEven :: "real \<Rightarrow> int" where
  "roundToEven x =
     (let n = \<lfloor>x\<rfloor>; r = x - of_int n
      in if r < 1 / 2 then n else if 1 / 2 < r then n + 1 else if even n then n else n + 1)"

definition float64 :: "real \<Rightarrow> real" where
  "float64 x =
     (if x = 0 then 0
      else let e = max (ilog2 \<bar>x\<bar> - 52) (- 1074)
           in of_int (roundToEven (x / 2 powi e)) * 2 powi e)"

definition fsub :: "real \<Rightarrow> real \<Rightarrow> real" where
  "fsub x y = float64 (x - y)"

definition fmul :: "real \<Rightarrow> real \<Rightarrow> real" where
  "fmul x y = float64 (x * y)"

definition fdiv :: "real \<Rightarrow> real \<Rightarrow> real" where
  "fdiv x y = float64 (x / y)"

section \<open>Stop-loss evaluation\<close>

text \<open>
  The loss percentage of \<^verbatim>\<open>checkAndExecuteStopLoss\<close>: a subtraction, a division and a
  multiplication of \<^verbatim>\<open>float64\<close>, each rounded.
\<close>

definition lossPct :: "GridLevelInfo \<Rightarrow> real \<Rightarrow> real" where
  "lossPct level currentPrice =
     (if Side level = ''buy''
      then fmul (fdiv (fsub (PositionEntry level) currentPrice) (PositionEntry level)) 100
      else fmul (fdiv (fsub currentPrice (PositionEntry level)) (PositionEntry level)) 100)"

text \<open>The close request of a level: a long close for the side \<^verbatim>\<open>buy\<close>, a short close otherwise.\<close>

definition closeCall :: "string \<Rightarrow> GridLevelInfo \<Rightarrow> call" where
  "closeCall symbol level =
     (if Side level = ''buy'' then Call_CloseLong symbol (PositionSize level)
      else Call_CloseShort symbol (PositionSize level))"

definition closePosition :: "Trader \<Rightarrow> string \<Rightarrow> GridLevelInfo \<Rightarrow> call list \<Rightarrow> string option" where
  "closePosition ex symbol level cs =
     (if Side level = ''buy'' then CloseLong ex cs symbol (PositionSize level)
      else CloseShort ex cs symbol (PositionSize level))"

text \<open>
  The body of the loop of \<^verbatim>\<open>checkAndExecuteStopLoss\<close> for one level. The booked loss
  \<^verbatim>\<open>-lossPct * level.AllocatedUSD / 100\<close> is a multiplication and a division of \<^verbatim>\<open>float64\<close>.
\<close>

definition stopLossStep ::
  "Trader \<Rightarrow> GridStrategyConfig \<Rightarrow> real \<Rightarrow> GridLevelInfo \<Rightarrow> int \<Rightarrow> call list
     \<Rightarrow> GridLevelInfo \<times> int \<times> call list" where
  "stopLossStep ex gridConfig currentPrice level totalTrades cs =
     (if State level \<noteq> ''filled'' \<or> PositionEntry level \<le> 0 then (level, totalTrades, cs)
      else
        let loss = lossPct level currentPrice
        in if loss \<ge> StopLossPct gridConfig then
             (case closePosition ex (Symbol_cfg gridConfig) level cs of
                Some closeErr \<Rightarrow>
                  (level, totalTrades, cs @ [closeCall (Symbol_cfg gridConfig) level])
              | None \<Rightarrow>
                  (level\<lparr> State := ''stopped'',
                          UnrealizedPnL := fdiv (fmul (- loss) (AllocatedUSD level)) 100 \<rparr>,
                   totalTrades + 1,
                   cs @ [closeCall (Symbol_cfg gridConfig) level]))
           else (level, totalTrades, cs))"

fun stopLossLoop ::
  "Trader \<Rightarrow> GridStrategyConfig \<Rightarrow> real \<Rightarrow> GridLevelInfo list \<Rightarrow> int \<Rightarrow> call list
     \<Rightarrow> GridLevelInfo list \<times> int \<times> call list" where
  "stopLossLoop ex gridConfig currentPrice [] totalTrades cs = ([], totalTrades, cs)"
| "stopLossLoop ex gridConfig currentPrice (level # rest) totalTrades cs =
     (let (level', totalTrades1, cs1) = stopLossStep ex gridConfig currentPrice level totalTrades cs;
          (rest', totalTrades2, cs2) = stopLossLoop ex gridConfig currentPrice rest totalTrades1 cs1
      in (level' # rest', totalTrades2, cs2))"

definition checkAndExecuteStopLoss ::
  "Trader \<Rightarrow> GridStrategyConfig \<Rightarrow> GridState \<Rightarrow> call list \<Rightarrow> GridState \<times> call list" where
  "checkAndExecuteStopLoss ex gridConfig gs cs =
     (if StopLossPct gridConfig \<le> 0 then (gs, cs)
      else
        case GetMarketPrice ex cs (Symbol_cfg gridConfig) of
          Inl e \<Rightarrow> (gs, cs @ [Call_GetMarketPrice (Symbol_cfg gridConfig)])
        | Inr currentPrice \<Rightarrow>
            let (levels', totalTrades', cs') =
                  stopLossLoop ex gridConfig currentPrice (Levels gs) (TotalTrades gs)
                    (cs @ [Call_GetMarketPrice (Symbol_cfg gridConfig)])
            in (gs\<lparr> Levels := levels', TotalTrades := totalTrades' \<rparr>, cs'))"

section \<open>Reconciler\<close>

text \<open>
  The first loop of \<^verbatim>\<open>syncGridState\<close>: a pending level whose order is no longer open is marked
  filled. \<open>active\<close> is the map \<^verbatim>\<open>activeOrderIDs\<close>.
\<close>

definition orderGone :: "(string \<Rightarrow> bool) \<Rightarrow> GridLevelInfo \<Rightarrow> bool" where
  "orderGone active level \<longleftrightarrow>
     State level = ''pending'' \<and> OrderID level \<noteq> '''' \<and> \<not> active (OrderID level)"

definition markFilled :: "GridLevelInfo \<Rightarrow> GridLevelInfo" where
  "markFilled level = level\<lparr> State := ''filled'', PositionEntry := Price level \<rparr>"

fun fillLoop :: "(string \<Rightarrow> bool) \<Rightarrow> GridLevelInfo list \<Rightarrow> int \<Rightarrow> GridLevelInfo list \<times> int" where
  "fillLoop active [] totalTrades = ([], totalTrades)"
| "fillLoop active (level # rest) totalTrades =
     (if orderGone active level
      then (let (rest', totalTrades') = fillLoop active rest (totalTrades + 1)
            in (markFilled level # rest', totalTrades'))
      else (let (rest', totalTrades') = fillLoop active rest totalTrades
            in (level # rest', totalTrades')))"

text \<open>The position loop of \<^verbatim>\<open>syncGridState\<close>: the P&L is spread over the filled levels.\<close>

definition setFilledPnL :: "real \<Rightarrow> GridState \<Rightarrow> GridState" where
  "setFilledPnL pnl gs =
     gs\<lparr> Levels := map (\<lambda>level. if State level = ''filled''
                                 then level\<lparr> UnrealizedPnL := pnl / real_of_int (TotalTrades gs) \<rparr>
                                 else level) (Levels gs) \<rparr>"

fun updatePositionInfo :: "string \<Rightarrow> Position list \<Rightarrow> GridState \<Rightarrow> GridState" where
  "updatePositionInfo symbol [] gs = gs"
| "updatePositionInfo symbol (pos # rest) gs =
     updatePositionInfo symbol rest
       (if symbol_key pos = Some symbol then
          (case unRealizedProfit pos of None \<Rightarrow> gs | Some pnl \<Rightarrow> setFilledPnL pnl gs)
        else gs)"

text \<open>
  \<^verbatim>\<open>syncGridState\<close> has no error result: a failed fetch ends the pass and the cycle goes on.
\<close>

definition syncGridState ::
  "Trader \<Rightarrow> GridStrategyConfig \<Rightarrow> GridState \<Rightarrow> call list \<Rightarrow> GridState \<times> call list" where
  "syncGridState ex gridConfig gs cs =
     (let cs1 = cs @ [Call_GetOpenOrders (Symbol_cfg gridConfig)]
      in case GetOpenOrders ex cs (Symbol_cfg gridConfig) of
           Inl e \<Rightarrow> (gs, cs1)
         | Inr openOrders \<Rightarrow>
             let (levels1, totalTrades1) =
                   fillLoop (\<lambda>orderID. orderID \<in> set openOrders) (Levels gs) (TotalTrades gs);
                 gs1 = gs\<lparr> Levels := levels1, TotalTrades := totalTrades1 \<rparr>;
                 cs2 = cs1 @ [Call_GetPositions]
             in case GetPositions ex cs1 of
                  Inl e \<Rightarrow> (gs1, cs2)
                | Inr positions \<Rightarrow>
                    checkAndExecuteStopLoss ex gridConfig
                      (updatePositionInfo (Symbol_cfg gridConfig) positions gs1) cs2)"

section \<open>Dispatch\<close>

text \<open>
  The grid operations read \<^verbatim>\<open>at.config.StrategyConfig.GridConfig\<close> and \<^verbatim>\<open>at.gridState\<close>.
  \<^verbatim>\<open>executeGridDecision\<close> is reached only from \<^verbatim>\<open>RunGridCycle\<close>, after \<^verbatim>\<open>InitializeGrid\<close> has
  installed both; a nil pointer is the panic of its dereference, reported here on entry.
\<close>

definition withGrid ::
  "AutoTrader
     \<Rightarrow> (GridStrategyConfig \<Rightarrow> GridState \<Rightarrow> call list \<Rightarrow> error option \<times> GridState \<times> call list)
     \<Rightarrow> error option \<times> AutoTrader" where
  "withGrid a f =
     (case GridConfig a of
        None \<Rightarrow> (Some (Panic ''nil pointer dereference''), a)
      | Some gridConfig \<Rightarrow>
          (case gridState a of
             None \<Rightarrow> (Some (Panic ''nil pointer dereference''), a)
           | Some gs \<Rightarrow>
               (let (err, gs', cs') = f gridConfig gs (calls a)
                in (err, a\<lparr> gridState := Some gs', calls := cs' \<rparr>))))"

definition executeGridDecision :: "Trader \<Rightarrow> Decision \<Rightarrow> AutoTrader \<Rightarrow> error option \<times> AutoTrader" where
  "executeGridDecision ex d a =
     (if Action d = ''place_buy_limit'' then
        withGrid a (\<lambda>gridConfig. placeGridLimitOrder ex gridConfig d ''BUY'')
      else if Action d = ''place_sell_limit'' then
        withGrid a (\<lambda>gridConfig. placeGridLimitOrder ex gridConfig d ''SELL'')
      else if Action d = ''cancel_order'' then
        withGrid a (\<lambda>gridConfig. cancelGridOrder ex d)
      else if Action d = ''cancel_all_orders'' then
        withGrid a (cancelAllGridOrders ex)
      else if Action d = ''pause_grid'' then
        withGrid a (pauseGrid ex)
      else if Action d = ''resume_grid'' then
        withGrid a (\<lambda>gridConfig. resumeGrid)
      else if Action d = ''adjust_grid'' then
        withGrid a (adjustGrid ex)
      else if Action d = ''hold'' then (None, a)
      else if Action d = ''close_long'' then
        (map_option ExchangeError (CloseLong ex (calls a) (Symbol_d d) (Quantity_d d)),
         a\<lparr> calls := calls a @ [Call_CloseLong (Symbol_d d) (Quantity_d d)] \<rparr>)
      else if Action d = ''close_short'' then
        (map_option ExchangeError (CloseShort ex (calls a) (Symbol_d d) (Quantity_d d)),
         a\<lparr> calls := calls a @ [Call_CloseShort (Symbol_d d) (Quantity_d d)] \<rparr>)
      else (None, a))"

section \<open>The level and order-book invariant\<close>

text \<open>
  A level carries an order id exactly when it is pending, the keys of the order book are the
  order ids of the pending levels, and each of them maps to the index of its level.
\<close>

definition levelConsistent :: "GridLevelInfo \<Rightarrow> bool" where
  "levelConsistent level \<longleftrightarrow> (OrderID level \<noteq> '''') = (State level = ''pending'')"

definition pendingOrderIDs :: "GridLevelInfo list \<Rightarrow> string list" where
  "pendingOrderIDs levels = map OrderID (filter (\<lambda>level. State level = ''pending'') levels)"

definition bookPointsAt :: "GridState \<Rightarrow> nat \<times> GridLevelInfo \<Rightarrow> bool" where
  "bookPointsAt gs p \<longleftrightarrow>
     (if State (snd p) = ''pending''
      then OrderBook gs (OrderID (snd p)) = Some (int (fst p)) else True)"

definition gridInvariant :: "GridState \<Rightarrow> bool" where
  "gridInvariant gs \<longleftrightarrow>
     list_all levelConsistent (Levels gs) \<and>
     dom (OrderBook gs) = set (pendingOrderIDs (Levels gs)) \<and>
     list_all (bookPointsAt gs) (enumerate 0 (Levels gs))"

section \<open>Stop-loss: the rule in the words of the specification\<close>

text \<open>
  The rule as the specification words it, to be compared with the loop above. The loss
  percentage is (entry - current) / entry * 100 for a \<^verbatim>\<open>buy\<close> level and
  (current - entry) / entry * 100 otherwise, computed in \<^verbatim>\<open>float64\<close>. A level triggers when
  it is filled, has a recorded entry and its loss percentage has reached the configured one.
  The close of a triggered level is a long close for \<^verbatim>\<open>buy\<close> and a short close otherwise,
  sized at the position size of the level; \<open>closeAnswer\<close> is what the exchange answers to it
  after the requests \<open>history\<close>. A triggered level whose close succeeds becomes stopped, with
  the loss booked on its allocation.
\<close>

definition lossPercent :: "GridLevelInfo \<Rightarrow> real \<Rightarrow> real" where
  "lossPercent level currentPrice =
     (if Side level = ''buy''
      then fmul (fdiv (fsub (PositionEntry level) currentPrice) (PositionEntry level)) 100
      else fmul (fdiv (fsub currentPrice (PositionEntry level)) (PositionEntry level)) 100)"

definition stopLossTriggered :: "GridStrategyConfig \<Rightarrow> real \<Rightarrow> GridLevelInfo \<Rightarrow> bool" where
  "stopLossTriggered gridConfig currentPrice level \<longleftrightarrow>
     State level = ''filled'' \<and> PositionEntry level > 0 \<and>
     lossPercent level currentPrice \<ge> StopLossPct gridConfig"

definition closeRequest :: "string \<Rightarrow> GridLevelInfo \<Rightarrow> call" where
  "closeRequest symbol level =
     (if Side level = ''buy'' then Call_CloseLong symbol (PositionSize level)
      else Call_CloseShort symbol (PositionSize level))"

definition closeAnswer :: "Trader \<Rightarrow> call list \<Rightarrow> string \<Rightarrow> GridLevelInfo \<Rightarrow> string option" where
  "closeAnswer ex history symbol level =
     (if Side level = ''buy'' then CloseLong ex history symbol (PositionSize level)
      else CloseShort ex history symbol (PositionSize level))"

definition stopLevel :: "real \<Rightarrow> GridLevelInfo \<Rightarrow> GridLevelInfo" where
  "stopLevel currentPrice level =
     level\<lparr> State := ''stopped'',
            UnrealizedPnL :=
              fdiv (fmul (- lossPercent level currentPrice) (AllocatedUSD level)) 100 \<rparr>"

definition stoppedCount :: "GridLevelInfo list \<Rightarrow> int" where
  "stoppedCount levels = int (length (filter (\<lambda>level. State level = ''stopped'') levels))"

section \<open>Concrete inputs\<close>

text \<open>
  The scenario of the specification: five levels between 90 and 110, 1000 USD, uniform
  weights, no leverage, a stop-loss of 5 percent. The amounts are small integers, so that the
  rounding of \<^verbatim>\<open>float64\<close> plays no role in the comparisons made on them.
\<close>

definition example_config :: GridStrategyConfig where
  "example_config =
     \<lparr> Symbol_cfg = ''BTCUSDT'', GridCount = 5, TotalInvestment = 1000, Leverage_cfg = 1,
       UpperPrice_cfg = 110, LowerPrice_cfg = 90, UseATRBounds = False, ATRMultiplier = 2,
       Distribution = ''uniform'', StopLossPct = 5, UseMakerOnly = True \<rparr>"

definition example_level :: "int \<Rightarrow> real \<Rightarrow> string \<Rightarrow> GridLevelInfo" where
  "example_level i price side =
     \<lparr> Index = i, Price = price, State = ''empty'', Side = side, AllocatedUSD = 200,
       OrderID = '''', OrderQuantity = 0, PositionEntry = 0, PositionSize = 0,
       UnrealizedPnL = 0 \<rparr>"

definition example_levels :: "GridLevelInfo list" where
  "example_levels =
     [example_level 0 90 ''buy'', example_level 1 95 ''buy'', example_level 2 100 ''buy'',
      example_level 3 105 ''sell'', example_level 4 110 ''sell'']"

text \<open>The grid that \<^verbatim>\<open>InitializeGrid\<close> installs for \<open>example_config\<close> at the price 100.\<close>

definition example_grid :: GridState where
  "example_grid =
     (NewGridState example_config)
       \<lparr> Levels := example_levels, UpperPrice := 110, LowerPrice := 90, GridSpacing := 5,
         IsInitialized := True \<rparr>"

text \<open>
  An exchange that accepts everything: the price is 100, there are no positions and no open
  orders, every order gets the id \<^verbatim>\<open>order-1\<close>; the market data service is down.
\<close>

definition ok_exchange :: Trader where
  "ok_exchange =
     \<lparr> GetMarketPrice = (\<lambda>cs symbol. Inr 100),
       GetPositions = (\<lambda>cs. Inr []),
       GetOpenOrders = (\<lambda>cs symbol. Inr []),
       SetLeverage = (\<lambda>cs symbol leverage. None),
       CancelAllOrders = (\<lambda>cs symbol. None),
       CloseLong = (\<lambda>cs symbol quantity. None),
       CloseShort = (\<lambda>cs symbol quantity. None),
       PlaceLimitOrder = (\<lambda>cs req. Inr ''order-1''),
       CancelOrder = (\<lambda>cs symbol orderID. None),
       GetWithTimeframes = (\<lambda>cs symbol. Inl ''no market data''),
       UnixNano = (\<lambda>cs. 0) \<rparr>"

text \<open>A buy decision at level 2 for 100 units at the price 100: a value of 10000 USD.\<close>

definition oversized_decision :: Decision where
  "oversized_decision =
     \<lparr> Action = ''place_buy_limit'', Symbol_d = ''BTCUSDT'', LevelIndex = 2, Price_d = 100,
       Quantity_d = 100, OrderID_d = '''', Reasoning = '''' \<rparr>"

text \<open>The request that \<^verbatim>\<open>placeGridLimitOrder\<close> submits for it: 2 units, the per-level cap.\<close>

definition capped_request :: LimitOrderRequest where
  "capped_request =
     \<lparr> Symbol_req = ''BTCUSDT'', Side_req = ''BUY'', Price_req = 100, Quantity_req = 2,
       Leverage_req = 1, PostOnly = True, ReduceOnly = False, ClientID = (2, 0) \<rparr>"

text \<open>The grid with the order \<^verbatim>\<open>order-1\<close> of 2 units resting at level 2.\<close>

definition pending_grid :: GridState where
  "pending_grid =
     example_grid
       \<lparr> Levels := example_levels[2 := (example_level 2 100 ''buy'')
                       \<lparr> State := ''pending'', OrderID := ''order-1'', OrderQuantity := 2 \<rparr>],
         OrderBook := [''order-1'' \<mapsto> 2] \<rparr>"

text \<open>The grid with a position of level 2 open at its price 100.\<close>

definition filled_grid :: GridState where
  "filled_grid =
     example_grid
       \<lparr> Levels := example_levels[2 := (example_level 2 100 ''buy'')
                       \<lparr> State := ''filled'', PositionEntry := 100 \<rparr>],
         TotalTrades := 1 \<rparr>"

text \<open>A decision for a level that does not exist: index 7 of 5 levels, 1 unit at 100.\<close>

definition out_of_range_decision :: Decision where
  "out_of_range_decision =
     \<lparr> Action = ''place_buy_limit'', Symbol_d = ''BTCUSDT'', LevelIndex = 7, Price_d = 100,
       Quantity_d = 1, OrderID_d = '''', Reasoning = '''' \<rparr>"

text \<open>A configuration with a negative leverage, and a decision for 1 unit at 100.\<close>

definition negative_leverage_config :: GridStrategyConfig where
  "negative_leverage_config = example_config\<lparr> Leverage_cfg := - 1 \<rparr>"

definition small_decision :: Decision where
  "small_decision =
     \<lparr> Action = ''place_buy_limit'', Symbol_d = ''BTCUSDT'', LevelIndex = 2, Price_d = 100,
       Quantity_d = 1, OrderID_d = '''', Reasoning = '''' \<rparr>"

text \<open>An exchange whose position endpoint fails.\<close>

definition positions_down :: Trader where
  "positions_down = ok_exchange\<lparr> GetPositions := (\<lambda>cs. Inl ''timeout'') \<rparr>"

text \<open>An exchange whose order endpoint fails.\<close>

definition orders_down :: Trader where
  "orders_down = ok_exchange\<lparr> GetOpenOrders := (\<lambda>cs symbol. Inl ''timeout'') \<rparr>"

text \<open>A trader that has not run a cycle yet, with a configuration of no levels.\<close>

definition zero_level_config :: GridStrategyConfig where
  "zero_level_config = example_config\<lparr> GridCount := 0 \<rparr>"

definition fresh_trader :: "GridStrategyConfig \<Rightarrow> AutoTrader" where
  "fresh_trader config = \<lparr> GridConfig = Some config, gridState = None, calls = [] \<rparr>"

text \<open>
  Volatility-derived bounds with the market data service down, so the default bounds around
  the price are used; the price is 100 at the first request and 200 afterwards.
\<close>

definition atr_config :: GridStrategyConfig where
  "atr_config = example_config\<lparr> UseATRBounds := True \<rparr>"

definition moving_exchange :: Trader where
  "moving_exchange =
     ok_exchange\<lparr> GetMarketPrice := (\<lambda>cs symbol. if cs = [] then Inr 100 else Inr 200) \<rparr>"

definition price_200 :: Trader where
  "price_200 = ok_exchange\<lparr> GetMarketPrice := (\<lambda>cs symbol. Inr 200) \<rparr>"

text \<open>
  The stop-loss examples: a long position of 3 units of level 2 entered at 100 and a short
  position of 2 units of level 3 entered at 105. The exchange \<open>sized_exchange price\<close> quotes
  \<open>price\<close> and closes a long position only for 3 units and a short position only for 2 units;
  \<open>refusing_exchange price\<close> quotes \<open>price\<close> and refuses every close.
\<close>

definition stop_loss_grid :: GridState where
  "stop_loss_grid =
     example_grid
       \<lparr> Levels :=
           [example_level 0 90 ''buy'', example_level 1 95 ''buy'',
            (example_level 2 100 ''buy'')
              \<lparr> State := ''filled'', PositionEntry := 100, PositionSize := 3 \<rparr>,
            (example_level 3 105 ''sell'')
              \<lparr> State := ''filled'', PositionEntry := 105, PositionSize := 2 \<rparr>,
            example_level 4 110 ''sell''],
         TotalTrades := 2 \<rparr>"

definition sized_exchange :: "real \<Rightarrow> Trader" where
  "sized_exchange price =
     ok_exchange
       \<lparr> GetMarketPrice := (\<lambda>cs symbol. Inr price),
         CloseLong := (\<lambda>cs symbol quantity. if quantity = 3 then None else Some ''wrong size''),
         CloseShort := (\<lambda>cs symbol quantity. if quantity = 2 then None else Some ''wrong size'') \<rparr>"

definition refusing_exchange :: "real \<Rightarrow> Trader" where
  "refusing_exchange price =
     ok_exchange
       \<lparr> GetMarketPrice := (\<lambda>cs symbol. Inr price),
         CloseLong := (\<lambda>cs symbol quantity. Some ''rejected''),
         CloseShort := (\<lambda>cs symbol quantity. Some ''rejected'') \<rparr>"

text \<open>A stop-loss of 7.25 percent, which the price 92.75 meets in exact arithmetic.\<close>

definition boundary_config :: GridStrategyConfig where
  "boundary_config = example_config\<lparr> StopLossPct := 29 / 4 \<rparr>"

text \<open>An exchange whose price endpoint fails, and a configuration with a single level.\<close>

definition price_down :: Trader where
  "price_down = ok_exchange\<lparr> GetMarketPrice := (\<lambda>cs symbol. Inl ''timeout'') \<rparr>"

definition one_level_config :: GridStrategyConfig where
  "one_level_config = example_config\<lparr> GridCount := 1 \<rparr>"

definition gaussian_config :: GridStrategyConfig where
  "gaussian_config = example_config\<lparr> Distribution := ''gaussian'' \<rparr>"

definition close_long_decision :: Decision where
  "close_long_decision =
     \<lparr> Action = ''close_long'', Symbol_d = ''BTCUSDT'', LevelIndex = 0, Price_d = 0,
       Quantity_d = 2, OrderID_d = '''', Reasoning = '''' \<rparr>"

definition running_trader :: "GridState \<Rightarrow> AutoTrader" where
  "running_trader gs = \<lparr> GridConfig = Some example_config, gridState = Some gs, calls = [] \<rparr>"

text \<open>
  The grid that \<^verbatim>\<open>InitializeGrid\<close> installs for \<open>atr_config\<close> at the price 100: the default
  bounds are 100 * (1 - 0.015) and 100 * (1 + 0.015), the spacing is 3 / 4 (in \<^verbatim>\<open>float64\<close>
  up to the rounding of 0.015).
\<close>

definition atr_levels :: "GridLevelInfo list" where
  "atr_levels =
     [example_level 0 (197 / 2) ''buy'', example_level 1 (397 / 4) ''buy'',
      example_level 2 100 ''buy'', example_level 3 (403 / 4) ''sell'',
      example_level 4 (203 / 2) ''sell'']"

definition atr_grid :: GridState where
  "atr_grid =
     (NewGridState atr_config)
       \<lparr> Levels := atr_levels, UpperPrice := 203 / 2, LowerPrice := 197 / 2,
         GridSpacing := 3 / 4, IsInitialized := True \<rparr>"

definition atr_calls :: "call list" where
  "atr_calls =
     [Call_GetMarketPrice ''BTCUSDT'', Call_GetWithTimeframes ''BTCUSDT'',
      Call_SetLeverage ''BTCUSDT'' 1]"

text \<open>Decisions to cancel the order \<^verbatim>\<open>order-1\<close>, to hold, and one with an action that does not exist.\<close>

definition cancel_decision :: Decision where
  "cancel_decision =
     \<lparr> Action = ''cancel_order'', Symbol_d = ''BTCUSDT'', LevelIndex = 0, Price_d = 0,
       Quantity_d = 0, OrderID_d = ''order-1'', Reasoning = '''' \<rparr>"

definition hold_decision :: Decision where
  "hold_decision = cancel_decision\<lparr> Action := ''hold'' \<rparr>"

definition unknown_decision :: Decision where
  "unknown_decision = cancel_decision\<lparr> Action := ''rebalance'' \<rparr>"

text \<open>An exchange that reports a short position of 9 units of the symbol, marked at 100.\<close>

definition exposed_exchange :: Trader where
  "exposed_exchange =
     ok_exchange\<lparr> GetPositions := (\<lambda>cs.
       Inr [\<lparr> symbol_key = Some ''BTCUSDT'', positionAmt = Some (- 9), markPrice = Some 100,
              entryPrice = None, unRealizedProfit = None \<rparr>]) \<rparr>"

section \<open>Evaluation of the concrete inputs\<close>

lemma oversized_fields:
  "Symbol_d oversized_decision = ''BTCUSDT''" "Price_d oversized_decision = 100"
  "LevelIndex oversized_decision = 2" "Quantity_d oversized_decision = 100"
  by (simp_all add: oversized_decision_def)

lemma example_config_fields:
  "Symbol_cfg example_config = ''BTCUSDT''" "GridCount example_config = 5"
  "TotalInvestment example_config = 1000" "Leverage_cfg example_config = 1"
  "StopLossPct example_config = 5" "UseMakerOnly example_config = True"
  "UseATRBounds example_config = False" "Distribution example_config = ''uniform''"
  "UpperPrice_cfg example_config = 110" "LowerPrice_cfg example_config = 90"
  by (simp_all add: example_config_def)

lemma example_grid_fields:
  "Levels example_grid = example_levels" "TotalTrades example_grid = 0"
  "OrderBook example_grid = Map.empty" "GridSpacing example_grid = 5"
  "UpperPrice example_grid = 110" "LowerPrice example_grid = 90"
  by (simp_all add: example_grid_def NewGridState_def)

lemma length_example_levels: "length example_levels = 5"
  by (simp add: example_levels_def)

lemma pendingValue_example_levels: "pendingValue example_levels = 0"
  by (simp add: pendingValue_def example_levels_def example_level_def)

lemma validateQuantity_oversized:
  "validateQuantity example_config oversized_decision example_grid = Inr 2"
  by (simp add: validateQuantity_def cappedQuantity_def maxQuantityPerLevel_def Let_def
        oversized_fields example_config_fields example_grid_fields
        example_levels_def example_level_def)

lemma checkTotalPositionLimit_example:
  "additionalValue \<le> 1000 \<Longrightarrow>
   checkTotalPositionLimit ok_exchange example_config symbol additionalValue example_grid [] =
     ((True, 0, 1000), [Call_GetPositions])"
  by (simp add: checkTotalPositionLimit_def pendingValue_example_levels example_grid_fields
        example_config_fields ok_exchange_def Let_def)

lemma recordOrder_oversized:
  "recordOrder oversized_decision ''order-1'' example_grid =
     example_grid
       \<lparr> Levels := example_levels[2 := (example_level 2 100 ''buy'')
                      \<lparr> State := ''pending'', OrderID := ''order-1'', OrderQuantity := 100 \<rparr>],
         OrderBook := [''order-1'' \<mapsto> 2] \<rparr>"
  by (simp add: recordOrder_def oversized_decision_def example_grid_def NewGridState_def
        example_levels_def)

lemma placeGridLimitOrder_oversized:
  "placeGridLimitOrder ok_exchange example_config oversized_decision ''BUY'' example_grid [] =
     (None, recordOrder oversized_decision ''order-1'' example_grid,
      [Call_GetPositions, Call_PlaceLimitOrder capped_request])"
  unfolding placeGridLimitOrder_def validateQuantity_oversized
  by (simp add: oversized_fields checkTotalPositionLimit_example Let_def)
     (simp add: oversized_fields capped_request_def ok_exchange_def example_config_fields)

section \<open>Properties of the \<^verbatim>\<open>float64\<close> arithmetic\<close>

text \<open>
  \<open>ilog2\<close> is the integer part of the binary logarithm; a result of \<open>float64\<close> is within half
  a unit in the last place of the exact value.
\<close>

lemma bitlen_pos_bounds:
  assumes "0 < n"
  shows "\<exists>k. bitlen n = int k + 1 \<and> (2::real) ^ k \<le> of_int n \<and> of_int n + 1 \<le> (2::real) ^ (k + 1)"
proof -
  define k where "k = nat (bitlen n - 1)"
  have "1 \<le> bitlen n"
    using assms by (auto simp: bitlen_alt_def)
  then have b: "bitlen n = int k + 1"
    by (simp add: k_def)
  have lo: "2 ^ k \<le> n" and hi: "n < 2 ^ (k + 1)"
    using bitlen_bounds [OF assms] by (simp_all add: b nat_add_distrib)
  have 1: "(2::real) ^ k \<le> of_int n"
    using lo by (metis of_int_le_iff of_int_numeral of_int_power)
  have "n + 1 \<le> 2 ^ (k + 1)" using hi by simp
  then have "of_int (n + 1) \<le> (2::real) ^ (k + 1)"
    by (metis of_int_le_iff of_int_numeral of_int_power)
  then have 2: "of_int n + 1 \<le> (2::real) ^ (k + 1)" by simp
  from b 1 2 show ?thesis by blast
qed

lemma ilog2_bounds:
  assumes "0 < x"
  shows "2 powi ilog2 x \<le> x \<and> x < 2 powi (ilog2 x + 1)"
proof (cases "1 \<le> x")
  case True
  define n where "n = \<lfloor>x\<rfloor>"
  have n: "0 < n" "of_int n \<le> x" "x < of_int n + 1"
    using True by (simp_all add: n_def)
  obtain k where k: "bitlen n = int k + 1" "(2::real) ^ k \<le> of_int n"
      "of_int n + 1 \<le> (2::real) ^ (k + 1)"
    using bitlen_pos_bounds [OF n(1)] by blast
  have i: "ilog2 x = int k"
    using True by (simp add: ilog2_def n_def [symmetric] k(1))
  have p: "2 powi ilog2 x = (2::real) ^ k" "2 powi (ilog2 x + 1) = (2::real) ^ (k + 1)"
    unfolding i by (simp_all add: power_int_add)
  have 1: "2 powi ilog2 x \<le> x"
    unfolding p using k(2) n(2) by (rule order_trans)
  have 2: "x < 2 powi (ilog2 x + 1)"
    unfolding p using n(3) k(3) by (rule less_le_trans)
  from 1 2 show ?thesis by simp
next
  case False
  define y where "y = 1 / x"
  have y: "1 < y" using assms False by (simp add: y_def)
  define c where "c = \<lceil>y\<rceil> - 1"
  have c: "0 < c" "of_int c < y" "y \<le> of_int c + 1"
    using y by (simp_all add: c_def less_ceiling_iff) linarith+
  obtain k where k: "bitlen c = int k + 1" "(2::real) ^ k \<le> of_int c"
      "of_int c + 1 \<le> (2::real) ^ (k + 1)"
    using bitlen_pos_bounds [OF c(1)] by blast
  have i: "ilog2 x = - (int k + 1)"
    using False by (simp add: ilog2_def y_def [symmetric] c_def [symmetric] k(1))
  have e1: "ilog2 x = - int (Suc k)" and e2: "ilog2 x + 1 = - int k"
    by (simp_all add: i)
  have p: "2 powi ilog2 x = 1 / (2::real) ^ (k + 1)" "2 powi (ilog2 x + 1) = 1 / (2::real) ^ k"
    by (simp only: e1 power_int_minus power_int_of_nat inverse_eq_divide Suc_eq_plus1)
       (simp only: e2 power_int_minus power_int_of_nat inverse_eq_divide)
  have "y \<le> 2 ^ (k + 1)" using c(3) k(3) by (rule order_trans)
  then have 1: "2 powi ilog2 x \<le> x"
    unfolding p using assms by (simp add: y_def field_simps)
  have "2 ^ k < y" using k(2) c(2) by (rule le_less_trans)
  then have 2: "x < 2 powi (ilog2 x + 1)"
    unfolding p using assms by (simp add: y_def field_simps)
  from 1 2 show ?thesis by simp
qed


lemma roundToEven_of_int: "roundToEven (of_int n) = n"
  by (simp add: roundToEven_def)

lemma roundToEven_error: "\<bar>of_int (roundToEven y) - y\<bar> \<le> 1 / 2"
proof -
  have "of_int \<lfloor>y\<rfloor> \<le> y" "y < of_int \<lfloor>y\<rfloor> + 1" by linarith+
  then show ?thesis
    by (auto simp: roundToEven_def Let_def abs_le_iff)
qed

lemma float64_error:
  "\<bar>float64 x - x\<bar> \<le> 2 powi (max (ilog2 \<bar>x\<bar> - 52) (- 1074)) / 2"
proof (cases "x = 0")
  case True
  then show ?thesis by (simp add: float64_def)
next
  case False
  define e where "e = max (ilog2 \<bar>x\<bar> - 52) (- 1074)"
  define u where "u = (2::real) powi e"
  have u: "0 < u" by (simp add: u_def)
  have f: "float64 x = of_int (roundToEven (x / u)) * u"
    using False by (simp add: float64_def Let_def e_def u_def)
  have "float64 x - x = (of_int (roundToEven (x / u)) - x / u) * u"
    using u by (simp add: f left_diff_distrib)
  then have "\<bar>float64 x - x\<bar> = \<bar>of_int (roundToEven (x / u)) - x / u\<bar> * u"
    using u by (simp only: abs_mult abs_of_pos)
  also have "\<dots> \<le> 1 / 2 * u"
    using roundToEven_error [of "x / u"] u by (intro mult_right_mono) simp_all
  finally show ?thesis by (simp add: u_def e_def)
qed

lemma float64_0: "float64 0 = 0"
  by (simp add: float64_def)

lemma float_ops_0: "fsub x x = 0" "fdiv 0 y = 0" "fmul 0 y = 0"
  by (simp_all add: fsub_def fdiv_def fmul_def float64_def)

lemmas float64_eval =
  fsub_def fmul_def fdiv_def float64_def ilog2_def roundToEven_def bitlen_def compute_floorlog
  Let_def power_int_minus

section \<open>Risk limiter: the absolute safety check\<close>

text \<open>
  C1 as stated fails: the decision for 100 units at 100 USD has a value of 10000 USD, above
  twice the 1000 USD of investment times leverage, yet it is not rejected. The quantity is
  clamped to the cap of 2 units first, the order is submitted, level 2 becomes pending and
  the order book gets an entry.
\<close>

theorem C1_oversized_request_is_clamped_not_rejected:
  "Quantity_d oversized_decision * Price_d oversized_decision >
     2 * (TotalInvestment example_config * real_of_int (Leverage_cfg example_config)) \<and>
   fst (placeGridLimitOrder ok_exchange example_config oversized_decision ''BUY''
          example_grid []) = None \<and>
   State (Levels (fst (snd (placeGridLimitOrder ok_exchange example_config oversized_decision
          ''BUY'' example_grid []))) ! 2) = ''pending'' \<and>
   OrderBook (fst (snd (placeGridLimitOrder ok_exchange example_config oversized_decision
          ''BUY'' example_grid []))) ''order-1'' = Some 2 \<and>
   State (Levels example_grid ! 2) = ''empty'' \<and>
   OrderBook example_grid ''order-1'' = None"
  by (simp add: placeGridLimitOrder_oversized recordOrder_oversized oversized_fields
        example_config_fields example_grid_fields)
     (simp add: example_levels_def example_level_def)

text \<open>
  C1, amended: the absolute safety check reads the quantity after the cap. When the price and
  the total investment are positive and the capped quantity times the price exceeds twice the
  total investment times the leverage, \<^verbatim>\<open>placeGridLimitOrder\<close> returns the risk violation, the
  grid state is unchanged and nothing has been sent to the exchange. The level count is taken
  to be other than 0, where the cap divides by it. (With at least one level and a leverage
  that is not negative the capped value never exceeds the limit; the case below has a
  negative leverage.)
\<close>

theorem C1_safety_check_rejects_capped_value:
  assumes "Price_d d > 0"
      and "TotalInvestment gridConfig > 0"
      and "GridCount gridConfig \<noteq> 0"
      and "cappedQuantity gridConfig d gs * Price_d d >
             2 * (TotalInvestment gridConfig * real_of_int (Leverage_cfg gridConfig))"
  shows "placeGridLimitOrder ex gridConfig d side gs cs =
           (Some (RiskViolation ''position value exceeds safety limit''), gs, cs)"
proof -
  have "validateQuantity gridConfig d gs =
          Inl (RiskViolation ''position value exceeds safety limit'')"
    using assms by (simp add: validateQuantity_def Let_def mult.commute)
  then show ?thesis by (simp add: placeGridLimitOrder_def)
qed

lemma cappedQuantity_negative_leverage:
  "cappedQuantity negative_leverage_config small_decision example_grid = - 2"
  by (simp add: cappedQuantity_def maxQuantityPerLevel_def Let_def negative_leverage_config_def
        small_decision_def example_config_def example_grid_fields example_levels_def
        example_level_def)

theorem C1_safety_check_witness:
  "Price_d small_decision > 0 \<and>
   TotalInvestment negative_leverage_config > 0 \<and>
   GridCount negative_leverage_config \<noteq> 0 \<and>
   cappedQuantity negative_leverage_config small_decision example_grid * Price_d small_decision >
     2 * (TotalInvestment negative_leverage_config *
            real_of_int (Leverage_cfg negative_leverage_config)) \<and>
   placeGridLimitOrder ok_exchange negative_leverage_config small_decision ''BUY''
       example_grid [] =
     (Some (RiskViolation ''position value exceeds safety limit''), example_grid, [])"
proof -
  have h: "Price_d small_decision > 0" "TotalInvestment negative_leverage_config > 0"
    "GridCount negative_leverage_config \<noteq> 0"
    "cappedQuantity negative_leverage_config small_decision example_grid * Price_d small_decision >
       2 * (TotalInvestment negative_leverage_config *
              real_of_int (Leverage_cfg negative_leverage_config))"
    by (simp_all add: cappedQuantity_negative_leverage)
       (simp_all add: small_decision_def negative_leverage_config_def example_config_def)
  show ?thesis
    using h C1_safety_check_rejects_capped_value [OF h, of ok_exchange "''BUY''" "[]"]
    by simp
qed

section \<open>Risk limiter: level indices out of range\<close>

lemma recordOrder_out_of_range:
  "LevelIndex d < 0 \<or> LevelIndex d \<ge> int (length (Levels gs)) \<Longrightarrow> recordOrder d orderID gs = gs"
  by (auto simp: recordOrder_def)

lemma placeGridLimitOrder_state:
  "fst (snd (placeGridLimitOrder ex gridConfig d side gs cs)) = gs \<or>
   (\<exists>orderID. fst (snd (placeGridLimitOrder ex gridConfig d side gs cs)) = recordOrder d orderID gs)"
  by (auto simp: placeGridLimitOrder_def Let_def split: sum.splits prod.splits)

text \<open>
  C5 as stated fails: the decision for level 7 of a grid of 5 levels is not ignored. It
  passes the risk limiter and one unit is submitted to the exchange, which accepts it.
\<close>

theorem C5_out_of_range_order_is_submitted:
  "LevelIndex out_of_range_decision = 7 \<and>
   length (Levels example_grid) = 5 \<and>
   GridCount example_config = 5 \<and>
   placeGridLimitOrder ok_exchange example_config out_of_range_decision ''BUY'' example_grid [] =
     (None, example_grid,
      [Call_GetPositions,
       Call_PlaceLimitOrder
         \<lparr> Symbol_req = ''BTCUSDT'', Side_req = ''BUY'', Price_req = 100, Quantity_req = 1,
           Leverage_req = 1, PostOnly = True, ReduceOnly = False, ClientID = (7, 0) \<rparr>])"
proof -
  have fields: "Symbol_d out_of_range_decision = ''BTCUSDT''"
    "Price_d out_of_range_decision = 100" "LevelIndex out_of_range_decision = 7"
    "Quantity_d out_of_range_decision = 1"
    by (simp_all add: out_of_range_decision_def)
  have v: "validateQuantity example_config out_of_range_decision example_grid = Inr 1"
    by (simp add: validateQuantity_def cappedQuantity_def maxQuantityPerLevel_def Let_def
          fields example_config_fields example_grid_fields length_example_levels)
  have r: "recordOrder out_of_range_decision ''order-1'' example_grid = example_grid"
    by (rule recordOrder_out_of_range)
       (simp add: fields example_grid_fields length_example_levels)
  have "placeGridLimitOrder ok_exchange example_config out_of_range_decision ''BUY''
          example_grid [] =
        (None, example_grid,
         [Call_GetPositions,
          Call_PlaceLimitOrder
            \<lparr> Symbol_req = ''BTCUSDT'', Side_req = ''BUY'', Price_req = 100, Quantity_req = 1,
              Leverage_req = 1, PostOnly = True, ReduceOnly = False, ClientID = (7, 0) \<rparr>])"
    unfolding placeGridLimitOrder_def v
    by (simp add: fields checkTotalPositionLimit_example Let_def)
       (simp add: fields r ok_exchange_def example_config_fields)
  then show ?thesis
    by (simp add: fields example_grid_fields length_example_levels example_config_fields)
qed

text \<open>
  C5, amended: for a place decision whose level index is outside the range of the levels, no
  level is mutated and the order book is unchanged: the grid state is left exactly as it was,
  whether the order is rejected, fails at the exchange or is accepted.
\<close>

theorem C5_out_of_range_leaves_grid_state:
  assumes "LevelIndex d < 0 \<or> LevelIndex d \<ge> int (length (Levels gs))"
  shows "fst (snd (placeGridLimitOrder ex gridConfig d side gs cs)) = gs"
  using placeGridLimitOrder_state [of ex gridConfig d side gs cs]
    recordOrder_out_of_range [OF assms]
  by auto

theorem C5_out_of_range_witness:
  "LevelIndex out_of_range_decision \<ge> int (length (Levels example_grid)) \<and>
   fst (snd (placeGridLimitOrder ok_exchange example_config out_of_range_decision ''BUY''
               example_grid [])) = example_grid"
proof -
  have h: "LevelIndex out_of_range_decision < 0 \<or>
           LevelIndex out_of_range_decision \<ge> int (length (Levels example_grid))"
    by (simp add: out_of_range_decision_def example_grid_fields length_example_levels)
  have "LevelIndex out_of_range_decision \<ge> int (length (Levels example_grid))"
    by (simp add: out_of_range_decision_def example_grid_fields length_example_levels)
  then show ?thesis
    using C5_out_of_range_leaves_grid_state [OF h, of ok_exchange example_config "''BUY''" "[]"]
    by simp
qed

section \<open>Geometry: the allocation of the investment\<close>

lemma foldl_add_sum_list: "foldl (+) (a::real) xs = a + sum_list xs"
  by (induction xs arbitrary: a) simp_all

lemma sum_list_scaled: "sum_list (map (\<lambda>x. c * x / W) ws) = c * sum_list ws / (W::real)"
  by (induction ws) (simp_all add: algebra_simps add_divide_distrib)

lemma weight_pos:
  assumes "i < nat (GridCount config)"
  shows "0 < weight config i"
proof -
  have "int i < GridCount config" using assms by linarith
  then have "real i < real_of_int (GridCount config)"
    by (metis of_int_less_iff of_int_of_nat_eq)
  then show ?thesis by (simp add: weight_def Let_def)
qed

lemma sum_list_weights_pos:
  assumes "1 \<le> GridCount config"
  shows "0 < sum_list (map (weight config) [0..<nat (GridCount config)])"
proof -
  have step: "0 < n \<Longrightarrow> n \<le> nat (GridCount config) \<Longrightarrow>
              0 < sum_list (map (weight config) [0..<n])" for n
  proof (induction n)
    case 0
    then show ?case by simp
  next
    case (Suc n)
    have w: "0 < weight config n" using Suc.prems by (intro weight_pos) simp
    show ?case
    proof (cases "n = 0")
      case True
      then show ?thesis using w by simp
    next
      case False
      then have "0 < sum_list (map (weight config) [0..<n])" using Suc by simp
      then show ?thesis using w by simp
    qed
  qed
  from step [of "nat (GridCount config)"] assms show ?thesis by simp
qed

lemma AllocatedUSD_newLevel:
  "AllocatedUSD (newLevel currentPrice config gs weights totalWeight i) =
     TotalInvestment config * (weights ! i) / totalWeight"
  by (simp add: newLevel_def Let_def)

lemma map_over_indices: "map (\<lambda>i. f (xs ! i)) [0..<length xs] = map f xs"
proof -
  have "map f xs = map f (map ((!) xs) [0..<length xs])" by (simp only: map_nth)
  also have "\<dots> = map (\<lambda>i. f (xs ! i)) [0..<length xs]" by (simp add: comp_def)
  finally show ?thesis by simp
qed

text \<open>
  C9: for every distribution and every level count of at least 1, \<^verbatim>\<open>initializeGridLevels\<close>
  succeeds, level \<open>i\<close> is allocated the total investment times its weight over the sum of the
  weights, and the allocations add up to the total investment (in real arithmetic).
\<close>

theorem C9_allocations_sum_to_total_investment:
  assumes "1 \<le> GridCount config"
  shows "\<exists>gs'. initializeGridLevels currentPrice config gs = Inr gs' \<and>
           length (Levels gs') = nat (GridCount config) \<and>
           (\<forall>i < nat (GridCount config).
              AllocatedUSD (Levels gs' ! i) =
                TotalInvestment config * weight config i /
                  sum_list (map (weight config) [0..<nat (GridCount config)])) \<and>
           sum_list (map AllocatedUSD (Levels gs')) = TotalInvestment config"
proof -
  define n where "n = nat (GridCount config)"
  define ws where "ws = map (weight config) [0..<n]"
  define W where "W = sum_list ws"
  define levels where "levels = map (newLevel currentPrice config gs ws W) [0..<n]"
  have len: "length ws = n" by (simp add: ws_def)
  have Wpos: "0 < W" using sum_list_weights_pos [OF assms] by (simp add: W_def ws_def n_def)
  have run: "initializeGridLevels currentPrice config gs = Inr (gs\<lparr> Levels := levels \<rparr>)"
    using assms
    by (simp add: initializeGridLevels_def Let_def foldl_add_sum_list levels_def W_def ws_def n_def)
  have alloc: "map AllocatedUSD levels = map (\<lambda>x. TotalInvestment config * x / W) ws"
  proof -
    have "map AllocatedUSD levels =
            map (\<lambda>i. TotalInvestment config * (ws ! i) / W) [0..<length ws]"
      by (simp add: levels_def AllocatedUSD_newLevel len)
    also have "\<dots> = map (\<lambda>x. TotalInvestment config * x / W) ws"
      by (rule map_over_indices)
    finally show ?thesis .
  qed
  have total: "sum_list (map AllocatedUSD levels) = TotalInvestment config"
    using Wpos by (simp add: alloc sum_list_scaled W_def [symmetric])
  have each: "\<forall>i<n. AllocatedUSD (levels ! i) = TotalInvestment config * weight config i / W"
    by (simp add: levels_def AllocatedUSD_newLevel ws_def)
  show ?thesis
    using run total each by (simp add: levels_def n_def [symmetric] W_def ws_def)
qed

theorem C9_allocations_witness:
  "1 \<le> GridCount gaussian_config \<and>
   (\<exists>gs'. initializeGridLevels 100 gaussian_config example_grid = Inr gs' \<and>
          length (Levels gs') = 5 \<and>
          sum_list (map AllocatedUSD (Levels gs')) = 1000)"
proof -
  have h: "1 \<le> GridCount gaussian_config"
    by (simp add: gaussian_config_def example_config_def)
  have f: "nat (GridCount gaussian_config) = 5" "TotalInvestment gaussian_config = 1000"
    by (simp_all add: gaussian_config_def example_config_def)
  from C9_allocations_sum_to_total_investment [OF h, of 100 example_grid]
  obtain gs' where "initializeGridLevels 100 gaussian_config example_grid = Inr gs'"
    "length (Levels gs') = 5" "sum_list (map AllocatedUSD (Levels gs')) = 1000"
    unfolding f by blast
  then show ?thesis using h by blast
qed

section \<open>Decision executor: closing a position\<close>

text \<open>
  C10: a \<^verbatim>\<open>close_long\<close> or \<^verbatim>\<open>close_short\<close> decision sends the close request to the exchange
  and returns its answer; the grid state (every level, the order book and the counters)
  and the configuration are left as they were.
\<close>

theorem C10_close_decisions_leave_grid_state:
  assumes "Action d = ''close_long'' \<or> Action d = ''close_short''"
  shows "gridState (snd (executeGridDecision ex d a)) = gridState a \<and>
         GridConfig (snd (executeGridDecision ex d a)) = GridConfig a \<and>
         calls (snd (executeGridDecision ex d a)) =
           calls a @ [if Action d = ''close_long''
                      then Call_CloseLong (Symbol_d d) (Quantity_d d)
                      else Call_CloseShort (Symbol_d d) (Quantity_d d)] \<and>
         fst (executeGridDecision ex d a) =
           map_option ExchangeError
             (if Action d = ''close_long''
              then CloseLong ex (calls a) (Symbol_d d) (Quantity_d d)
              else CloseShort ex (calls a) (Symbol_d d) (Quantity_d d))"
  using assms by (auto simp: executeGridDecision_def)

theorem C10_close_long_witness:
  "Action close_long_decision = ''close_long'' \<and>
   gridState (snd (executeGridDecision ok_exchange close_long_decision
                     (running_trader filled_grid))) = Some filled_grid \<and>
   calls (snd (executeGridDecision ok_exchange close_long_decision
                 (running_trader filled_grid))) = [Call_CloseLong ''BTCUSDT'' 2] \<and>
   fst (executeGridDecision ok_exchange close_long_decision (running_trader filled_grid)) = None"
proof -
  have h: "Action close_long_decision = ''close_long'' \<or>
           Action close_long_decision = ''close_short''"
    by (simp add: close_long_decision_def)
  show ?thesis
    using C10_close_decisions_leave_grid_state
            [OF h, of ok_exchange "running_trader filled_grid"]
    by (simp add: close_long_decision_def running_trader_def ok_exchange_def)
qed

section \<open>Reconciler: failed fetches\<close>

lemma fillLoop_eq:
  "fillLoop active levels totalTrades =
     (map (\<lambda>level. if orderGone active level then markFilled level else level) levels,
      totalTrades + int (length (filter (orderGone active) levels)))"
  by (induction levels arbitrary: totalTrades) simp_all

lemma syncGridState_orders_fail:
  assumes "GetOpenOrders ex cs (Symbol_cfg gridConfig) = Inl e"
  shows "syncGridState ex gridConfig gs cs = (gs, cs @ [Call_GetOpenOrders (Symbol_cfg gridConfig)])"
  using assms by (simp add: syncGridState_def)

lemma syncGridState_positions_fail:
  assumes "GetOpenOrders ex cs (Symbol_cfg gridConfig) = Inr openOrders"
      and "GetPositions ex (cs @ [Call_GetOpenOrders (Symbol_cfg gridConfig)]) = Inl e"
  shows "syncGridState ex gridConfig gs cs =
           (gs\<lparr> Levels := map (\<lambda>level. if orderGone (\<lambda>orderID. orderID \<in> set openOrders) level
                                        then markFilled level else level) (Levels gs),
                TotalTrades := TotalTrades gs +
                  int (length (filter (orderGone (\<lambda>orderID. orderID \<in> set openOrders)) (Levels gs))) \<rparr>,
            cs @ [Call_GetOpenOrders (Symbol_cfg gridConfig), Call_GetPositions])"
  using assms by (simp add: syncGridState_def fillLoop_eq)

lemma pending_grid_fields:
  "Levels pending_grid =
     [example_level 0 90 ''buy'', example_level 1 95 ''buy'',
      (example_level 2 100 ''buy'')
        \<lparr> State := ''pending'', OrderID := ''order-1'', OrderQuantity := 2 \<rparr>,
      example_level 3 105 ''sell'', example_level 4 110 ''sell'']"
  "TotalTrades pending_grid = 0"
  "OrderBook pending_grid = [''order-1'' \<mapsto> 2]"
  by (simp_all add: pending_grid_def example_grid_def NewGridState_def example_levels_def
        numeral_2_eq_2)

lemma positions_down_fields:
  "GetOpenOrders positions_down cs symbol = Inr []"
  "GetPositions positions_down cs = Inl ''timeout''"
  by (simp_all add: positions_down_def ok_exchange_def)

text \<open>
  C3 as stated fails: when the positions cannot be fetched, the pass has already marked
  level 2 (whose order is no longer open) as filled and counted a trade.
\<close>

theorem C3_state_changes_when_positions_fail:
  "GetPositions positions_down [Call_GetOpenOrders ''BTCUSDT''] = Inl ''timeout'' \<and>
   State (Levels pending_grid ! 2) = ''pending'' \<and>
   TotalTrades pending_grid = 0 \<and>
   State (Levels (fst (syncGridState positions_down example_config pending_grid [])) ! 2) =
     ''filled'' \<and>
   PositionEntry (Levels (fst (syncGridState positions_down example_config pending_grid [])) ! 2) =
     100 \<and>
   TotalTrades (fst (syncGridState positions_down example_config pending_grid [])) = 1"
proof -
  have "syncGridState positions_down example_config pending_grid [] =
          (pending_grid\<lparr> Levels := map (\<lambda>level. if orderGone (\<lambda>orderID. orderID \<in> set []) level
                                        then markFilled level else level) (Levels pending_grid),
                TotalTrades := TotalTrades pending_grid +
                  int (length (filter (orderGone (\<lambda>orderID. orderID \<in> set [])) (Levels pending_grid))) \<rparr>,
           [] @ [Call_GetOpenOrders (Symbol_cfg example_config), Call_GetPositions])"
    by (rule syncGridState_positions_fail) (simp_all add: positions_down_fields)
  then show ?thesis
    by (simp add: positions_down_fields pending_grid_fields orderGone_def markFilled_def
          example_level_def)
qed

text \<open>
  C3, amended: when the open orders cannot be fetched, the pass ends with the grid state
  unchanged. When the open orders are fetched and the positions cannot be, the pass ends
  after fill detection: every pending level with an order id that is no longer open has
  become filled with its price as entry, the trade counter has grown by their number,
  nothing else has changed, and no price is fetched and no position is closed. In both
  cases \<^verbatim>\<open>syncGridState\<close> returns normally.
\<close>

theorem C3_failed_fetch_ends_the_pass:
  "(GetOpenOrders ex cs (Symbol_cfg gridConfig) = Inl e \<longrightarrow>
      syncGridState ex gridConfig gs cs =
        (gs, cs @ [Call_GetOpenOrders (Symbol_cfg gridConfig)])) \<and>
   (GetOpenOrders ex cs (Symbol_cfg gridConfig) = Inr openOrders \<and>
    GetPositions ex (cs @ [Call_GetOpenOrders (Symbol_cfg gridConfig)]) = Inl e' \<longrightarrow>
      syncGridState ex gridConfig gs cs =
        (gs\<lparr> Levels := map (\<lambda>level. if orderGone (\<lambda>orderID. orderID \<in> set openOrders) level
                                     then markFilled level else level) (Levels gs),
             TotalTrades := TotalTrades gs +
               int (length (filter (orderGone (\<lambda>orderID. orderID \<in> set openOrders)) (Levels gs))) \<rparr>,
         cs @ [Call_GetOpenOrders (Symbol_cfg gridConfig), Call_GetPositions]))"
  using syncGridState_orders_fail syncGridState_positions_fail by blast

theorem C3_failed_fetch_witness:
  "GetOpenOrders orders_down [] (Symbol_cfg example_config) = Inl ''timeout'' \<and>
   syncGridState orders_down example_config pending_grid [] =
     (pending_grid, [Call_GetOpenOrders ''BTCUSDT'']) \<and>
   GetOpenOrders positions_down [] (Symbol_cfg example_config) = Inr [] \<and>
   GetPositions positions_down ([] @ [Call_GetOpenOrders (Symbol_cfg example_config)]) =
     Inl ''timeout'' \<and>
   snd (syncGridState positions_down example_config pending_grid []) =
     [Call_GetOpenOrders ''BTCUSDT'', Call_GetPositions] \<and>
   map State (Levels (fst (syncGridState positions_down example_config pending_grid []))) =
     [''empty'', ''empty'', ''filled'', ''empty'', ''empty'']"
proof -
  have a: "GetOpenOrders orders_down [] (Symbol_cfg example_config) = Inl ''timeout''"
    by (simp add: orders_down_def ok_exchange_def)
  have b: "GetOpenOrders positions_down [] (Symbol_cfg example_config) = Inr []"
    "GetPositions positions_down ([] @ [Call_GetOpenOrders (Symbol_cfg example_config)]) =
       Inl ''timeout''"
    by (simp_all add: positions_down_fields)
  have 1: "syncGridState orders_down example_config pending_grid [] =
             (pending_grid, [Call_GetOpenOrders ''BTCUSDT''])"
    using a C3_failed_fetch_ends_the_pass
            [of orders_down "[]" example_config "''timeout''" pending_grid]
    by (simp add: example_config_fields)
  have 2: "syncGridState positions_down example_config pending_grid [] =
        (pending_grid\<lparr> Levels := map (\<lambda>level. if orderGone (\<lambda>orderID. orderID \<in> set []) level
                                     then markFilled level else level) (Levels pending_grid),
             TotalTrades := TotalTrades pending_grid +
               int (length (filter (orderGone (\<lambda>orderID. orderID \<in> set [])) (Levels pending_grid))) \<rparr>,
         [] @ [Call_GetOpenOrders (Symbol_cfg example_config), Call_GetPositions])"
    using b C3_failed_fetch_ends_the_pass
            [of positions_down "[]" example_config _ pending_grid "[]" "''timeout''"]
    by blast
  show ?thesis
    unfolding 1 2 using a b
    by (simp add: example_config_fields pending_grid_fields orderGone_def markFilled_def
          example_level_def)
qed

section \<open>Geometry: initialization and the level count\<close>

lemma initializeGridLevels_ok:
  assumes "0 \<le> GridCount config"
  shows "\<exists>levels. initializeGridLevels currentPrice config gs = Inr (gs\<lparr> Levels := levels \<rparr>) \<and>
           length levels = nat (GridCount config) \<and>
           list_all (\<lambda>level. State level = ''empty'' \<and> OrderID level = '''') levels"
proof -
  define levels where
    "levels = map (newLevel currentPrice config gs
                     (map (weight config) [0..<nat (GridCount config)])
                     (foldl (+) 0 (map (weight config) [0..<nat (GridCount config)])))
                [0..<nat (GridCount config)]"
  have "initializeGridLevels currentPrice config gs = Inr (gs\<lparr> Levels := levels \<rparr>)"
    using assms by (simp add: initializeGridLevels_def Let_def levels_def)
  moreover have "length levels = nat (GridCount config)"
    by (simp add: levels_def)
  moreover have "list_all (\<lambda>level. State level = ''empty'' \<and> OrderID level = '''') levels"
    by (simp add: levels_def list_all_iff newLevel_def Let_def)
  ultimately show ?thesis by blast
qed

lemma initializeGridLevels_panic:
  "GridCount config < 0 \<Longrightarrow>
   initializeGridLevels currentPrice config gs = Inl (Panic ''makeslice: len out of range'')"
  by (simp add: initializeGridLevels_def)

lemma calculateBounds_flags:
  "calculateBounds ex price config gs cs = (gs1, cs1) \<Longrightarrow> IsInitialized gs1 = IsInitialized gs"
  by (auto simp: calculateBounds_def calculateATRBounds_def calculateDefaultBounds_def Let_def
        split: if_splits sum.splits)

lemma InitializeGrid_no_config:
  "GridConfig a = None \<Longrightarrow>
   InitializeGrid ex a = (Some (ConfigError ''grid configuration not found''), a)"
  by (simp add: InitializeGrid_def)

lemma InitializeGrid_ok:
  assumes "GridConfig a = Some gridConfig"
      and "GetMarketPrice ex (calls a) (Symbol_cfg gridConfig) = Inr price"
      and "0 \<le> GridCount gridConfig"
  shows "fst (InitializeGrid ex a) = None \<and>
         (\<exists>gs. gridState (snd (InitializeGrid ex a)) = Some gs \<and> IsInitialized gs \<and>
               length (Levels gs) = nat (GridCount gridConfig) \<and>
               GridSpacing gs =
                 (UpperPrice gs - LowerPrice gs) / real_of_int (GridCount gridConfig - 1))"
proof -
  obtain gs1 cs2 where b: "calculateBounds ex price gridConfig (NewGridState gridConfig)
      (calls a @ [Call_GetMarketPrice (Symbol_cfg gridConfig)]) = (gs1, cs2)"
    by (cases "calculateBounds ex price gridConfig (NewGridState gridConfig)
      (calls a @ [Call_GetMarketPrice (Symbol_cfg gridConfig)])") auto
  define gs2 where "gs2 = gs1\<lparr> GridSpacing :=
      (UpperPrice gs1 - LowerPrice gs1) / real_of_int (GridCount gridConfig - 1) \<rparr>"
  obtain levels where l: "initializeGridLevels price gridConfig gs2 = Inr (gs2\<lparr> Levels := levels \<rparr>)"
    "length levels = nat (GridCount gridConfig)"
    using initializeGridLevels_ok [OF assms(3)] by blast
  have "InitializeGrid ex a =
          (None, a\<lparr> gridState := Some (gs2\<lparr> Levels := levels, IsInitialized := True \<rparr>),
                    calls := cs2 @ [Call_SetLeverage (Symbol_cfg gridConfig) (Leverage_cfg gridConfig)] \<rparr>)"
    using assms(1,2) b l(1) by (simp add: InitializeGrid_def Let_def gs2_def)
  then show ?thesis using l(2) by (simp add: gs2_def)
qed

lemma InitializeGrid_panic:
  assumes "GridConfig a = Some gridConfig"
      and "GetMarketPrice ex (calls a) (Symbol_cfg gridConfig) = Inr price"
      and "GridCount gridConfig < 0"
  shows "fst (InitializeGrid ex a) = Some (Panic ''makeslice: len out of range'') \<and>
         (\<exists>gs. gridState (snd (InitializeGrid ex a)) = Some gs \<and> \<not> IsInitialized gs)"
proof -
  obtain gs1 cs2 where b: "calculateBounds ex price gridConfig (NewGridState gridConfig)
      (calls a @ [Call_GetMarketPrice (Symbol_cfg gridConfig)]) = (gs1, cs2)"
    by (cases "calculateBounds ex price gridConfig (NewGridState gridConfig)
      (calls a @ [Call_GetMarketPrice (Symbol_cfg gridConfig)])") auto
  have "\<not> IsInitialized gs1"
    using calculateBounds_flags [OF b] by (simp add: NewGridState_def)
  then show ?thesis
    using assms(1,2) b initializeGridLevels_panic [OF assms(3)]
    by (simp add: InitializeGrid_def Let_def)
qed

lemma zero_level_fields:
  "GridCount zero_level_config = 0" "Symbol_cfg zero_level_config = ''BTCUSDT''"
  by (simp_all add: zero_level_config_def example_config_def)

text \<open>
  C4 as stated fails: with a level count of 0 the initialization does not fail. It returns
  no error and installs an initialized grid without levels.
\<close>

theorem C4_zero_levels_are_accepted:
  "GridCount zero_level_config < 2 \<and>
   fst (InitializeGrid ok_exchange (fresh_trader zero_level_config)) = None \<and>
   map_option IsInitialized
     (gridState (snd (InitializeGrid ok_exchange (fresh_trader zero_level_config)))) = Some True \<and>
   map_option Levels
     (gridState (snd (InitializeGrid ok_exchange (fresh_trader zero_level_config)))) = Some []"
proof -
  have "fst (InitializeGrid ok_exchange (fresh_trader zero_level_config)) = None \<and>
        (\<exists>gs. gridState (snd (InitializeGrid ok_exchange (fresh_trader zero_level_config))) = Some gs \<and>
              IsInitialized gs \<and> length (Levels gs) = nat (GridCount zero_level_config) \<and>
              GridSpacing gs =
                (UpperPrice gs - LowerPrice gs) / real_of_int (GridCount zero_level_config - 1))"
    by (rule InitializeGrid_ok [where price = 100])
       (simp_all add: fresh_trader_def zero_level_fields ok_exchange_def)
  then show ?thesis by (auto simp: zero_level_fields)
qed

text \<open>
  C4, amended: grid initialization does not check the level count. With a configuration
  present and the market price available it succeeds for every level count of at least 0
  (0 and 1 included), installs that many levels and marks the grid initialized; for a level
  count other than 1 the spacing is (upper - lower) / (level count - 1), and for a level
  count of 1 the divisor is zero, which is not an error either. A configuration error is
  returned exactly when the grid configuration is missing, and then nothing is installed.
  When the market price cannot be fetched, the error of the exchange is returned and a fresh
  grid state, without levels and not initialized, stays installed. A negative level count
  ends in the runtime panic of the allocation, with the grid not initialized.
\<close>

theorem C4_initialization_does_not_check_level_count:
  "(GridConfig a = None \<longrightarrow>
      InitializeGrid ex a = (Some (ConfigError ''grid configuration not found''), a)) \<and>
   ((\<exists>reason. fst (InitializeGrid ex a) = Some (ConfigError reason)) \<longleftrightarrow> GridConfig a = None) \<and>
   (GridConfig a = Some gridConfig \<and>
    GetMarketPrice ex (calls a) (Symbol_cfg gridConfig) = Inl e \<longrightarrow>
      InitializeGrid ex a =
        (Some (ExchangeError (''failed to get market price: '' @ e)),
         a\<lparr> gridState := Some (NewGridState gridConfig),
            calls := calls a @ [Call_GetMarketPrice (Symbol_cfg gridConfig)] \<rparr>) \<and>
      \<not> IsInitialized (NewGridState gridConfig) \<and> Levels (NewGridState gridConfig) = []) \<and>
   (GridConfig a = Some gridConfig \<and>
    GetMarketPrice ex (calls a) (Symbol_cfg gridConfig) = Inr price \<and>
    0 \<le> GridCount gridConfig \<longrightarrow>
      fst (InitializeGrid ex a) = None \<and>
      (\<exists>gs. gridState (snd (InitializeGrid ex a)) = Some gs \<and> IsInitialized gs \<and>
            length (Levels gs) = nat (GridCount gridConfig) \<and>
            (GridCount gridConfig \<noteq> 1 \<longrightarrow>
               GridSpacing gs =
                 (UpperPrice gs - LowerPrice gs) / real_of_int (GridCount gridConfig - 1)))) \<and>
   (GridConfig a = Some gridConfig \<and>
    GetMarketPrice ex (calls a) (Symbol_cfg gridConfig) = Inr price \<and>
    GridCount gridConfig < 0 \<longrightarrow>
      fst (InitializeGrid ex a) = Some (Panic ''makeslice: len out of range'') \<and>
      (\<exists>gs. gridState (snd (InitializeGrid ex a)) = Some gs \<and> \<not> IsInitialized gs))"
proof -
  have 1: "GridConfig a = None \<longrightarrow>
      InitializeGrid ex a = (Some (ConfigError ''grid configuration not found''), a)"
    by (simp add: InitializeGrid_no_config)
  have 2: "(\<exists>reason. fst (InitializeGrid ex a) = Some (ConfigError reason)) \<longleftrightarrow> GridConfig a = None"
  proof
    assume "\<exists>reason. fst (InitializeGrid ex a) = Some (ConfigError reason)"
    then show "GridConfig a = None"
      by (auto simp: InitializeGrid_def Let_def case_prod_beta initializeGridLevels_def
            split: option.splits sum.splits if_splits)
  next
    assume "GridConfig a = None"
    then show "\<exists>reason. fst (InitializeGrid ex a) = Some (ConfigError reason)"
      by (simp add: InitializeGrid_no_config)
  qed
  have 3: "GridConfig a = Some gridConfig \<and>
    GetMarketPrice ex (calls a) (Symbol_cfg gridConfig) = Inl e \<longrightarrow>
      InitializeGrid ex a =
        (Some (ExchangeError (''failed to get market price: '' @ e)),
         a\<lparr> gridState := Some (NewGridState gridConfig),
            calls := calls a @ [Call_GetMarketPrice (Symbol_cfg gridConfig)] \<rparr>) \<and>
      \<not> IsInitialized (NewGridState gridConfig) \<and> Levels (NewGridState gridConfig) = []"
    by (simp add: InitializeGrid_def Let_def NewGridState_def)
  have 4: "GridConfig a = Some gridConfig \<and>
    GetMarketPrice ex (calls a) (Symbol_cfg gridConfig) = Inr price \<and>
    0 \<le> GridCount gridConfig \<longrightarrow>
      fst (InitializeGrid ex a) = None \<and>
      (\<exists>gs. gridState (snd (InitializeGrid ex a)) = Some gs \<and> IsInitialized gs \<and>
            length (Levels gs) = nat (GridCount gridConfig) \<and>
            (GridCount gridConfig \<noteq> 1 \<longrightarrow>
               GridSpacing gs =
                 (UpperPrice gs - LowerPrice gs) / real_of_int (GridCount gridConfig - 1)))"
    using InitializeGrid_ok [of a gridConfig ex price] by blast
  have 5: "GridConfig a = Some gridConfig \<and>
    GetMarketPrice ex (calls a) (Symbol_cfg gridConfig) = Inr price \<and>
    GridCount gridConfig < 0 \<longrightarrow>
      fst (InitializeGrid ex a) = Some (Panic ''makeslice: len out of range'') \<and>
      (\<exists>gs. gridState (snd (InitializeGrid ex a)) = Some gs \<and> \<not> IsInitialized gs)"
    using InitializeGrid_panic [of a gridConfig ex price] by blast
  from 1 2 3 4 5 show ?thesis by (intro conjI)
qed

theorem C4_initialization_witness:
  "GridConfig \<lparr> GridConfig = None, gridState = None, calls = [] \<rparr> = None \<and>
   InitializeGrid ok_exchange \<lparr> GridConfig = None, gridState = None, calls = [] \<rparr> =
     (Some (ConfigError ''grid configuration not found''),
      \<lparr> GridConfig = None, gridState = None, calls = [] \<rparr>) \<and>
   GridConfig (fresh_trader example_config) = Some example_config \<and>
   GetMarketPrice price_down (calls (fresh_trader example_config)) (Symbol_cfg example_config) =
     Inl ''timeout'' \<and>
   InitializeGrid price_down (fresh_trader example_config) =
     (Some (ExchangeError ''failed to get market price: timeout''),
      \<lparr> GridConfig = Some example_config, gridState = Some (NewGridState example_config),
        calls = [Call_GetMarketPrice ''BTCUSDT''] \<rparr>) \<and>
   GetMarketPrice ok_exchange (calls (fresh_trader example_config)) (Symbol_cfg example_config) =
     Inr 100 \<and>
   0 \<le> GridCount example_config \<and>
   fst (InitializeGrid ok_exchange (fresh_trader example_config)) = None \<and>
   (\<exists>gs. gridState (snd (InitializeGrid ok_exchange (fresh_trader example_config))) = Some gs \<and>
         IsInitialized gs \<and> length (Levels gs) = 5 \<and> GridSpacing gs * 4 = UpperPrice gs - LowerPrice gs) \<and>
   GridCount one_level_config = 1 \<and>
   fst (InitializeGrid ok_exchange (fresh_trader one_level_config)) = None \<and>
   (\<exists>gs. gridState (snd (InitializeGrid ok_exchange (fresh_trader one_level_config))) = Some gs \<and>
         IsInitialized gs \<and> length (Levels gs) = 1) \<and>
   GridCount (example_config\<lparr> GridCount := - 1 \<rparr>) < 0 \<and>
   fst (InitializeGrid ok_exchange (fresh_trader (example_config\<lparr> GridCount := - 1 \<rparr>))) =
     Some (Panic ''makeslice: len out of range'')"
proof -
  note C4 = C4_initialization_does_not_check_level_count
  have h1: "GridConfig \<lparr> GridConfig = None, gridState = None, calls = [] \<rparr> = None" by simp
  have h2: "GridConfig (fresh_trader example_config) = Some example_config \<and>
    GetMarketPrice ok_exchange (calls (fresh_trader example_config)) (Symbol_cfg example_config) =
      Inr 100 \<and> 0 \<le> GridCount example_config"
    by (simp add: fresh_trader_def ok_exchange_def example_config_fields)
  have h3: "GridConfig (fresh_trader (example_config\<lparr> GridCount := - 1 \<rparr>)) =
      Some (example_config\<lparr> GridCount := - 1 \<rparr>) \<and>
    GetMarketPrice ok_exchange (calls (fresh_trader (example_config\<lparr> GridCount := - 1 \<rparr>)))
      (Symbol_cfg (example_config\<lparr> GridCount := - 1 \<rparr>)) = Inr 100 \<and>
    GridCount (example_config\<lparr> GridCount := - 1 \<rparr>) < 0"
    by (simp add: fresh_trader_def ok_exchange_def)
  have h4: "GridConfig (fresh_trader example_config) = Some example_config \<and>
    GetMarketPrice price_down (calls (fresh_trader example_config)) (Symbol_cfg example_config) =
      Inl ''timeout''"
    by (simp add: fresh_trader_def price_down_def ok_exchange_def)
  have h5: "GridConfig (fresh_trader one_level_config) = Some one_level_config \<and>
    GetMarketPrice ok_exchange (calls (fresh_trader one_level_config)) (Symbol_cfg one_level_config) =
      Inr 100 \<and> 0 \<le> GridCount one_level_config"
    and g5: "GridCount one_level_config = 1"
    by (simp_all add: fresh_trader_def ok_exchange_def one_level_config_def example_config_fields)
  have t1: "InitializeGrid ok_exchange \<lparr> GridConfig = None, gridState = None, calls = [] \<rparr> =
     (Some (ConfigError ''grid configuration not found''),
      \<lparr> GridConfig = None, gridState = None, calls = [] \<rparr>)"
    using h1 C4 [of "\<lparr> GridConfig = None, gridState = None, calls = [] \<rparr>" ok_exchange]
    by blast
  have t2: "fst (InitializeGrid ok_exchange (fresh_trader example_config)) = None \<and>
   (\<exists>gs. gridState (snd (InitializeGrid ok_exchange (fresh_trader example_config))) = Some gs \<and>
         IsInitialized gs \<and> length (Levels gs) = nat (GridCount example_config) \<and>
         (GridCount example_config \<noteq> 1 \<longrightarrow>
            GridSpacing gs =
              (UpperPrice gs - LowerPrice gs) / real_of_int (GridCount example_config - 1)))"
    using h2 C4 [of "fresh_trader example_config" ok_exchange example_config _ 100]
    by blast
  have t3: "fst (InitializeGrid ok_exchange (fresh_trader (example_config\<lparr> GridCount := - 1 \<rparr>))) =
     Some (Panic ''makeslice: len out of range'')"
    using h3 C4 [of "fresh_trader (example_config\<lparr> GridCount := - 1 \<rparr>)" ok_exchange
                "example_config\<lparr> GridCount := - 1 \<rparr>" _ 100]
    by blast
  have "InitializeGrid price_down (fresh_trader example_config) =
        (Some (ExchangeError (''failed to get market price: '' @ ''timeout'')),
         (fresh_trader example_config)
           \<lparr> gridState := Some (NewGridState example_config),
             calls := calls (fresh_trader example_config) @
                        [Call_GetMarketPrice (Symbol_cfg example_config)] \<rparr>)"
    using h4 C4 [of "fresh_trader example_config" price_down example_config "''timeout''"]
    by blast
  then have t4: "InitializeGrid price_down (fresh_trader example_config) =
     (Some (ExchangeError ''failed to get market price: timeout''),
      \<lparr> GridConfig = Some example_config, gridState = Some (NewGridState example_config),
        calls = [Call_GetMarketPrice ''BTCUSDT''] \<rparr>)"
    by (simp add: fresh_trader_def example_config_fields)
  have t5: "fst (InitializeGrid ok_exchange (fresh_trader one_level_config)) = None \<and>
   (\<exists>gs. gridState (snd (InitializeGrid ok_exchange (fresh_trader one_level_config))) = Some gs \<and>
         IsInitialized gs \<and> length (Levels gs) = nat (GridCount one_level_config) \<and>
         (GridCount one_level_config \<noteq> 1 \<longrightarrow>
            GridSpacing gs =
              (UpperPrice gs - LowerPrice gs) / real_of_int (GridCount one_level_config - 1)))"
    using h5 C4 [of "fresh_trader one_level_config" ok_exchange one_level_config _ 100]
    by blast
  from t2 obtain gs where gs:
    "gridState (snd (InitializeGrid ok_exchange (fresh_trader example_config))) = Some gs"
    "IsInitialized gs" "length (Levels gs) = 5"
    "GridSpacing gs * 4 = UpperPrice gs - LowerPrice gs"
    by (auto simp: example_config_fields)
  from t5 obtain gs1 where gs1:
    "gridState (snd (InitializeGrid ok_exchange (fresh_trader one_level_config))) = Some gs1"
    "IsInitialized gs1" "length (Levels gs1) = 1"
    by (auto simp: g5)
  show ?thesis
    using h1 h2 h3 h4 g5 t1 t2 t3 t4 t5 gs gs1 by (simp add: example_config_fields)
qed

section \<open>Stop-loss evaluation: the loop against the rule\<close>

lemma stopLossStep_eq:
  "stopLossStep ex gridConfig currentPrice level totalTrades cs =
     (if stopLossTriggered gridConfig currentPrice level then
        (if closeAnswer ex cs (Symbol_cfg gridConfig) level = None
         then (stopLevel currentPrice level, totalTrades + 1,
               cs @ [closeRequest (Symbol_cfg gridConfig) level])
         else (level, totalTrades, cs @ [closeRequest (Symbol_cfg gridConfig) level]))
      else (level, totalTrades, cs))"
  by (auto simp: stopLossStep_def stopLossTriggered_def stopLevel_def Let_def lossPct_def
        lossPercent_def closePosition_def closeAnswer_def closeCall_def closeRequest_def
        split: option.splits)

lemma stopLossLoop_Cons:
  "stopLossLoop ex gridConfig currentPrice (level # rest) totalTrades cs =
     (fst (stopLossStep ex gridConfig currentPrice level totalTrades cs) #
        fst (stopLossLoop ex gridConfig currentPrice rest
               (fst (snd (stopLossStep ex gridConfig currentPrice level totalTrades cs)))
               (snd (snd (stopLossStep ex gridConfig currentPrice level totalTrades cs)))),
      snd (stopLossLoop ex gridConfig currentPrice rest
               (fst (snd (stopLossStep ex gridConfig currentPrice level totalTrades cs)))
               (snd (snd (stopLossStep ex gridConfig currentPrice level totalTrades cs)))))"
  by (simp add: case_prod_beta Let_def)

lemma stopLossLoop_length:
  "length (fst (stopLossLoop ex gridConfig currentPrice levels totalTrades cs)) = length levels"
  by (induction levels arbitrary: totalTrades cs) (simp_all add: case_prod_beta Let_def)

lemma stopLossLoop_calls:
  "snd (snd (stopLossLoop ex gridConfig currentPrice levels totalTrades cs)) =
     cs @ map (closeRequest (Symbol_cfg gridConfig))
            (filter (stopLossTriggered gridConfig currentPrice) levels)"
proof (induction levels arbitrary: totalTrades cs)
  case Nil
  then show ?case by simp
next
  case (Cons level rest)
  show ?case
    unfolding stopLossLoop_Cons by (simp add: Cons.IH stopLossStep_eq)
qed

lemma stopLossStep_calls:
  "snd (snd (stopLossStep ex gridConfig currentPrice level totalTrades cs)) =
     cs @ map (closeRequest (Symbol_cfg gridConfig))
            (filter (stopLossTriggered gridConfig currentPrice) [level])"
  by (simp add: stopLossStep_eq)

lemma stopLossLoop_nth:
  "i < length levels \<Longrightarrow>
   fst (stopLossLoop ex gridConfig currentPrice levels totalTrades cs) ! i =
     (if stopLossTriggered gridConfig currentPrice (levels ! i) \<and>
         closeAnswer ex
           (cs @ map (closeRequest (Symbol_cfg gridConfig))
                   (filter (stopLossTriggered gridConfig currentPrice) (take i levels)))
           (Symbol_cfg gridConfig) (levels ! i) = None
      then stopLevel currentPrice (levels ! i) else levels ! i)"
proof (induction levels arbitrary: totalTrades cs i)
  case Nil
  then show ?case by simp
next
  case (Cons level rest)
  show ?case
  proof (cases i)
    case 0
    then show ?thesis
      unfolding stopLossLoop_Cons by (simp add: stopLossStep_eq)
  next
    case (Suc j)
    then have j: "j < length rest" using Cons.prems by simp
    define totalTrades1 where
      "totalTrades1 = fst (snd (stopLossStep ex gridConfig currentPrice level totalTrades cs))"
    define cs1 where
      "cs1 = snd (snd (stopLossStep ex gridConfig currentPrice level totalTrades cs))"
    have history:
      "cs1 @ map (closeRequest (Symbol_cfg gridConfig))
               (filter (stopLossTriggered gridConfig currentPrice) (take j rest)) =
       cs @ map (closeRequest (Symbol_cfg gridConfig))
              (filter (stopLossTriggered gridConfig currentPrice) (take i (level # rest)))"
      by (simp add: cs1_def stopLossStep_calls Suc)
    have "fst (stopLossLoop ex gridConfig currentPrice (level # rest) totalTrades cs) ! i =
          fst (stopLossLoop ex gridConfig currentPrice rest totalTrades1 cs1) ! j"
      unfolding stopLossLoop_Cons by (simp add: Suc totalTrades1_def cs1_def)
    also have "\<dots> =
       (if stopLossTriggered gridConfig currentPrice (rest ! j) \<and>
           closeAnswer ex
             (cs1 @ map (closeRequest (Symbol_cfg gridConfig))
                      (filter (stopLossTriggered gridConfig currentPrice) (take j rest)))
             (Symbol_cfg gridConfig) (rest ! j) = None
        then stopLevel currentPrice (rest ! j) else rest ! j)"
      by (rule Cons.IH [OF j])
    finally show ?thesis
      unfolding history by (simp add: Suc)
  qed
qed

lemma stopLossLoop_trades:
  "fst (snd (stopLossLoop ex gridConfig currentPrice levels totalTrades cs)) =
     totalTrades
       + stoppedCount (fst (stopLossLoop ex gridConfig currentPrice levels totalTrades cs))
       - stoppedCount levels"
proof (induction levels arbitrary: totalTrades cs)
  case Nil
  then show ?case by (simp add: stoppedCount_def)
next
  case (Cons level rest)
  show ?case
    unfolding stopLossLoop_Cons
    by (simp add: Cons.IH stopLossStep_eq)
       (auto simp: stoppedCount_def stopLossTriggered_def stopLevel_def)
qed

lemma checkAndExecuteStopLoss_eq:
  assumes "StopLossPct gridConfig > 0"
      and "GetMarketPrice ex cs (Symbol_cfg gridConfig) = Inr currentPrice"
  shows "checkAndExecuteStopLoss ex gridConfig gs cs =
           (gs\<lparr> Levels := fst (stopLossLoop ex gridConfig currentPrice (Levels gs) (TotalTrades gs)
                                 (cs @ [Call_GetMarketPrice (Symbol_cfg gridConfig)])),
                TotalTrades := fst (snd (stopLossLoop ex gridConfig currentPrice (Levels gs)
                                 (TotalTrades gs)
                                 (cs @ [Call_GetMarketPrice (Symbol_cfg gridConfig)]))) \<rparr>,
            snd (snd (stopLossLoop ex gridConfig currentPrice (Levels gs) (TotalTrades gs)
                                 (cs @ [Call_GetMarketPrice (Symbol_cfg gridConfig)]))))"
  using assms by (simp add: checkAndExecuteStopLoss_def case_prod_beta)

text \<open>
  C7: with a positive stop-loss percentage and the price \<open>currentPrice\<close> fetched, the
  evaluation keeps the number of levels. Level \<open>i\<close> triggers exactly when it is filled, has a
  positive entry and its loss percentage has reached the stop-loss percentage, where the loss
  percentage is (entry - current) / entry * 100 for the side \<^verbatim>\<open>buy\<close> and
  (current - entry) / entry * 100 for any other side (\<^verbatim>\<open>sell\<close>), each operation rounded as
  \<^verbatim>\<open>float64\<close> does. One close is requested from the exchange for each triggered level, in the
  order of the levels and sized at the position size of the level: a long close for \<^verbatim>\<open>buy\<close>,
  a short close otherwise. Level \<open>i\<close> becomes stopped, with the unrealized P&L of minus the
  loss percentage times its allocation over 100, exactly when it triggers and the exchange
  accepts that close; otherwise it is unchanged, so it stays filled when the close fails.
  The trade counter grows by the number of levels newly stopped and nothing else changes.
\<close>

theorem C7_stop_loss_evaluation:
  assumes "StopLossPct gridConfig > 0"
      and "GetMarketPrice ex cs (Symbol_cfg gridConfig) = Inr currentPrice"
      and "i < length (Levels gs)"
  shows "let level = Levels gs ! i;
             entry = PositionEntry level;
             symbol = Symbol_cfg gridConfig;
             loss = (if Side level = ''buy''
                     then fmul (fdiv (fsub entry currentPrice) entry) 100
                     else fmul (fdiv (fsub currentPrice entry) entry) 100);
             triggered = (State level = ''filled'' \<and> entry > 0 \<and> loss \<ge> StopLossPct gridConfig);
             history = cs @ Call_GetMarketPrice symbol #
                         map (closeRequest symbol)
                           (filter (stopLossTriggered gridConfig currentPrice) (take i (Levels gs)));
             answer = (if Side level = ''buy'' then CloseLong ex history symbol (PositionSize level)
                       else CloseShort ex history symbol (PositionSize level));
             result = fst (checkAndExecuteStopLoss ex gridConfig gs cs)
         in length (Levels result) = length (Levels gs) \<and>
            Levels result ! i =
              (if triggered \<and> answer = None
               then level\<lparr> State := ''stopped'',
                           UnrealizedPnL := fdiv (fmul (- loss) (AllocatedUSD level)) 100 \<rparr>
               else level) \<and>
            snd (checkAndExecuteStopLoss ex gridConfig gs cs) =
              cs @ Call_GetMarketPrice symbol #
                map (closeRequest symbol)
                  (filter (stopLossTriggered gridConfig currentPrice) (Levels gs)) \<and>
            TotalTrades result =
              TotalTrades gs + stoppedCount (Levels result) - stoppedCount (Levels gs) \<and>
            result = gs\<lparr> Levels := Levels result, TotalTrades := TotalTrades result \<rparr> \<and>
            stopLossTriggered gridConfig currentPrice level = triggered \<and>
            closeRequest symbol level =
              (if Side level = ''buy'' then Call_CloseLong symbol (PositionSize level)
               else Call_CloseShort symbol (PositionSize level))"
proof -
  note run = checkAndExecuteStopLoss_eq [OF assms(1,2), of gs]
  have 1: "length (Levels (fst (checkAndExecuteStopLoss ex gridConfig gs cs))) = length (Levels gs)"
    by (simp add: run stopLossLoop_length)
  have 2: "Levels (fst (checkAndExecuteStopLoss ex gridConfig gs cs)) ! i =
           (if stopLossTriggered gridConfig currentPrice (Levels gs ! i) \<and>
               closeAnswer ex
                 (cs @ Call_GetMarketPrice (Symbol_cfg gridConfig) #
                    map (closeRequest (Symbol_cfg gridConfig))
                      (filter (stopLossTriggered gridConfig currentPrice) (take i (Levels gs))))
                 (Symbol_cfg gridConfig) (Levels gs ! i) = None
            then stopLevel currentPrice (Levels gs ! i) else Levels gs ! i)"
    by (simp add: run stopLossLoop_nth [OF assms(3)])
  have 3: "snd (checkAndExecuteStopLoss ex gridConfig gs cs) =
           cs @ Call_GetMarketPrice (Symbol_cfg gridConfig) #
             map (closeRequest (Symbol_cfg gridConfig))
               (filter (stopLossTriggered gridConfig currentPrice) (Levels gs))"
    by (simp add: run stopLossLoop_calls)
  have 4: "TotalTrades (fst (checkAndExecuteStopLoss ex gridConfig gs cs)) =
           TotalTrades gs
             + stoppedCount (Levels (fst (checkAndExecuteStopLoss ex gridConfig gs cs)))
             - stoppedCount (Levels gs)"
    using stopLossLoop_trades [of ex gridConfig currentPrice "Levels gs" "TotalTrades gs"]
    by (simp add: run)
  have 5: "fst (checkAndExecuteStopLoss ex gridConfig gs cs) =
           gs\<lparr> Levels := Levels (fst (checkAndExecuteStopLoss ex gridConfig gs cs)),
               TotalTrades := TotalTrades (fst (checkAndExecuteStopLoss ex gridConfig gs cs)) \<rparr>"
    by (simp add: run)
  have 6: "stopLossTriggered gridConfig currentPrice (Levels gs ! i) =
           (State (Levels gs ! i) = ''filled'' \<and> PositionEntry (Levels gs ! i) > 0 \<and>
            (if Side (Levels gs ! i) = ''buy''
             then fmul (fdiv (fsub (PositionEntry (Levels gs ! i)) currentPrice)
                          (PositionEntry (Levels gs ! i))) 100
             else fmul (fdiv (fsub currentPrice (PositionEntry (Levels gs ! i)))
                          (PositionEntry (Levels gs ! i))) 100) \<ge> StopLossPct gridConfig)"
    by (simp add: stopLossTriggered_def lossPercent_def)
  have 7: "closeRequest (Symbol_cfg gridConfig) (Levels gs ! i) =
           (if Side (Levels gs ! i) = ''buy''
            then Call_CloseLong (Symbol_cfg gridConfig) (PositionSize (Levels gs ! i))
            else Call_CloseShort (Symbol_cfg gridConfig) (PositionSize (Levels gs ! i)))"
    by (simp add: closeRequest_def)
  have 8: "Levels (fst (checkAndExecuteStopLoss ex gridConfig gs cs)) ! i =
           (if (State (Levels gs ! i) = ''filled'' \<and> PositionEntry (Levels gs ! i) > 0 \<and>
                (if Side (Levels gs ! i) = ''buy''
                 then fmul (fdiv (fsub (PositionEntry (Levels gs ! i)) currentPrice)
                              (PositionEntry (Levels gs ! i))) 100
                 else fmul (fdiv (fsub currentPrice (PositionEntry (Levels gs ! i)))
                              (PositionEntry (Levels gs ! i))) 100) \<ge> StopLossPct gridConfig) \<and>
               (if Side (Levels gs ! i) = ''buy''
                then CloseLong ex
                       (cs @ Call_GetMarketPrice (Symbol_cfg gridConfig) #
                          map (closeRequest (Symbol_cfg gridConfig))
                            (filter (stopLossTriggered gridConfig currentPrice) (take i (Levels gs))))
                       (Symbol_cfg gridConfig) (PositionSize (Levels gs ! i))
                else CloseShort ex
                       (cs @ Call_GetMarketPrice (Symbol_cfg gridConfig) #
                          map (closeRequest (Symbol_cfg gridConfig))
                            (filter (stopLossTriggered gridConfig currentPrice) (take i (Levels gs))))
                       (Symbol_cfg gridConfig) (PositionSize (Levels gs ! i))) = None
            then (Levels gs ! i)
                   \<lparr> State := ''stopped'',
                     UnrealizedPnL :=
                       fdiv (fmul (- (if Side (Levels gs ! i) = ''buy''
                                      then fmul (fdiv (fsub (PositionEntry (Levels gs ! i)) currentPrice)
                                                   (PositionEntry (Levels gs ! i))) 100
                                      else fmul (fdiv (fsub currentPrice (PositionEntry (Levels gs ! i)))
                                                   (PositionEntry (Levels gs ! i))) 100))
                               (AllocatedUSD (Levels gs ! i))) 100 \<rparr>
            else Levels gs ! i)"
    unfolding 2 6 by (simp add: closeAnswer_def stopLevel_def lossPercent_def)
  show ?thesis
    unfolding Let_def using 1 8 3 4 5 6 7 by blast
qed

lemma stop_loss_grid_fields:
  "Levels stop_loss_grid =
     [example_level 0 90 ''buy'', example_level 1 95 ''buy'',
      (example_level 2 100 ''buy'')
        \<lparr> State := ''filled'', PositionEntry := 100, PositionSize := 3 \<rparr>,
      (example_level 3 105 ''sell'')
        \<lparr> State := ''filled'', PositionEntry := 105, PositionSize := 2 \<rparr>,
      example_level 4 110 ''sell'']"
  "TotalTrades stop_loss_grid = 2"
  by (simp_all add: stop_loss_grid_def example_grid_def NewGridState_def)

lemma stop_loss_exchanges:
  "GetMarketPrice (sized_exchange price) cs symbol = Inr price"
  "GetMarketPrice (refusing_exchange price) cs symbol = Inr price"
  "CloseLong (sized_exchange price) cs symbol quantity =
     (if quantity = 3 then None else Some ''wrong size'')"
  "CloseShort (sized_exchange price) cs symbol quantity =
     (if quantity = 2 then None else Some ''wrong size'')"
  "CloseLong (refusing_exchange price) cs symbol quantity = Some ''rejected''"
  "CloseShort (refusing_exchange price) cs symbol quantity = Some ''rejected''"
  by (simp_all add: sized_exchange_def refusing_exchange_def ok_exchange_def)

lemma boundary_config_fields:
  "StopLossPct boundary_config = 29 / 4" "Symbol_cfg boundary_config = ''BTCUSDT''"
  by (simp_all add: boundary_config_def example_config_def)

lemma stop_loss_percentages:
  "fmul (fdiv (fsub 100 94) 100) 100 = 6"
  "fmul (fdiv (fsub 100 97) 100) 100 = 3"
  "fmul (fdiv (fsub 100 126) 100) 100 = - 26"
  "fmul (fdiv (fsub 94 105) 105) 100 = - 5897570940604221 / 2 ^ 49"
  "fmul (fdiv (fsub 97 105) 105) 100 = - 8578285004515231 / 2 ^ 50"
  "fmul (fdiv (fsub 126 105) 105) 100 = 20"
  "fmul (fdiv (fsub 100 (371 / 4)) 100) 100 = 8162774324609023 / 2 ^ 50"
  "fmul (fdiv (fsub (371 / 4) 105) 105) 100 = - 6567749456581973 / 2 ^ 49"
  "fdiv (fmul (- 6) 200) 100 = - 12"
  "fdiv (fmul (- 20) 200) 100 = - 40"
  by (simp_all add: float64_eval)

lemma stop_loss_triggers:
  "filter (stopLossTriggered example_config 94) (Levels stop_loss_grid) = [Levels stop_loss_grid ! 2]"
  "filter (stopLossTriggered example_config 126) (Levels stop_loss_grid) = [Levels stop_loss_grid ! 3]"
  "filter (stopLossTriggered example_config 97) (Levels stop_loss_grid) = []"
  "filter (stopLossTriggered boundary_config (371 / 4)) (Levels stop_loss_grid) = []"
  by (simp_all add: stop_loss_grid_fields stopLossTriggered_def lossPercent_def example_level_def
        example_config_fields boundary_config_fields stop_loss_percentages)

theorem C7_stop_loss_witness:
  "StopLossPct example_config > 0 \<and> StopLossPct boundary_config > 0 \<and>
   GetMarketPrice (sized_exchange 94) [] (Symbol_cfg example_config) = Inr 94 \<and>
   2 < length (Levels stop_loss_grid) \<and> 3 < length (Levels stop_loss_grid) \<and>
   Side (Levels stop_loss_grid ! 2) = ''buy'' \<and> Side (Levels stop_loss_grid ! 3) = ''sell'' \<and>
   Levels (fst (checkAndExecuteStopLoss (sized_exchange 94) example_config stop_loss_grid [])) ! 2 =
     (Levels stop_loss_grid ! 2)\<lparr> State := ''stopped'', UnrealizedPnL := - 12 \<rparr> \<and>
   Levels (fst (checkAndExecuteStopLoss (sized_exchange 94) example_config stop_loss_grid [])) ! 3 =
     Levels stop_loss_grid ! 3 \<and>
   snd (checkAndExecuteStopLoss (sized_exchange 94) example_config stop_loss_grid []) =
     [Call_GetMarketPrice ''BTCUSDT'', Call_CloseLong ''BTCUSDT'' 3] \<and>
   Levels (fst (checkAndExecuteStopLoss (sized_exchange 126) example_config stop_loss_grid [])) ! 3 =
     (Levels stop_loss_grid ! 3)\<lparr> State := ''stopped'', UnrealizedPnL := - 40 \<rparr> \<and>
   Levels (fst (checkAndExecuteStopLoss (sized_exchange 126) example_config stop_loss_grid [])) ! 2 =
     Levels stop_loss_grid ! 2 \<and>
   snd (checkAndExecuteStopLoss (sized_exchange 126) example_config stop_loss_grid []) =
     [Call_GetMarketPrice ''BTCUSDT'', Call_CloseShort ''BTCUSDT'' 2] \<and>
   Levels (fst (checkAndExecuteStopLoss (refusing_exchange 94) example_config stop_loss_grid [])) ! 2 =
     Levels stop_loss_grid ! 2 \<and>
   snd (checkAndExecuteStopLoss (refusing_exchange 94) example_config stop_loss_grid []) =
     [Call_GetMarketPrice ''BTCUSDT'', Call_CloseLong ''BTCUSDT'' 3] \<and>
   Levels (fst (checkAndExecuteStopLoss (refusing_exchange 126) example_config stop_loss_grid [])) ! 3 =
     Levels stop_loss_grid ! 3 \<and>
   snd (checkAndExecuteStopLoss (refusing_exchange 126) example_config stop_loss_grid []) =
     [Call_GetMarketPrice ''BTCUSDT'', Call_CloseShort ''BTCUSDT'' 2] \<and>
   Levels (fst (checkAndExecuteStopLoss (sized_exchange 97) example_config stop_loss_grid [])) ! 2 =
     Levels stop_loss_grid ! 2 \<and>
   snd (checkAndExecuteStopLoss (sized_exchange 97) example_config stop_loss_grid []) =
     [Call_GetMarketPrice ''BTCUSDT''] \<and>
   (100 - 371 / 4) / 100 * 100 = StopLossPct boundary_config \<and>
   lossPercent (Levels stop_loss_grid ! 2) (371 / 4) < StopLossPct boundary_config \<and>
   Levels (fst (checkAndExecuteStopLoss (sized_exchange (371 / 4)) boundary_config
                  stop_loss_grid [])) ! 2 = Levels stop_loss_grid ! 2 \<and>
   snd (checkAndExecuteStopLoss (sized_exchange (371 / 4)) boundary_config stop_loss_grid []) =
     [Call_GetMarketPrice ''BTCUSDT'']"
proof -
  have h: "StopLossPct example_config > 0" "StopLossPct boundary_config > 0"
    "2 < length (Levels stop_loss_grid)" "3 < length (Levels stop_loss_grid)"
    by (simp_all add: example_config_fields boundary_config_fields stop_loss_grid_fields)
  have p: "GetMarketPrice (sized_exchange price) [] (Symbol_cfg example_config) = Inr price"
    "GetMarketPrice (refusing_exchange price) [] (Symbol_cfg example_config) = Inr price"
    "GetMarketPrice (sized_exchange price) [] (Symbol_cfg boundary_config) = Inr price" for price
    by (simp_all add: stop_loss_exchanges)
  have l2: "Levels stop_loss_grid ! 2 =
      (example_level 2 100 ''buy'')\<lparr> State := ''filled'', PositionEntry := 100, PositionSize := 3 \<rparr>"
    and l3: "Levels stop_loss_grid ! 3 =
      (example_level 3 105 ''sell'')\<lparr> State := ''filled'', PositionEntry := 105, PositionSize := 2 \<rparr>"
    by (simp_all add: stop_loss_grid_fields)
  have f2: "Side (Levels stop_loss_grid ! 2) = ''buy''" "State (Levels stop_loss_grid ! 2) = ''filled''"
    "PositionEntry (Levels stop_loss_grid ! 2) = 100" "PositionSize (Levels stop_loss_grid ! 2) = 3"
    "AllocatedUSD (Levels stop_loss_grid ! 2) = 200"
    by (simp_all add: l2 example_level_def)
  have f3: "Side (Levels stop_loss_grid ! 3) = ''sell''" "State (Levels stop_loss_grid ! 3) = ''filled''"
    "PositionEntry (Levels stop_loss_grid ! 3) = 105" "PositionSize (Levels stop_loss_grid ! 3) = 2"
    "AllocatedUSD (Levels stop_loss_grid ! 3) = 200"
    by (simp_all add: l3 example_level_def)
  note ev = Let_def f2 f3 stop_loss_percentages stop_loss_triggers stop_loss_exchanges
    example_config_fields boundary_config_fields closeRequest_def
  have a2: "Levels (fst (checkAndExecuteStopLoss (sized_exchange 94) example_config stop_loss_grid [])) ! 2 =
     (Levels stop_loss_grid ! 2)\<lparr> State := ''stopped'', UnrealizedPnL := - 12 \<rparr>"
    and a: "snd (checkAndExecuteStopLoss (sized_exchange 94) example_config stop_loss_grid []) =
     [Call_GetMarketPrice ''BTCUSDT'', Call_CloseLong ''BTCUSDT'' 3]"
    using C7_stop_loss_evaluation [OF h(1) p(1) h(3), of 94] by (simp_all add: ev)
  have a3: "Levels (fst (checkAndExecuteStopLoss (sized_exchange 94) example_config stop_loss_grid [])) ! 3 =
     Levels stop_loss_grid ! 3"
    using C7_stop_loss_evaluation [OF h(1) p(1) h(4), of 94] by (simp add: ev)
  have b3: "Levels (fst (checkAndExecuteStopLoss (sized_exchange 126) example_config stop_loss_grid [])) ! 3 =
     (Levels stop_loss_grid ! 3)\<lparr> State := ''stopped'', UnrealizedPnL := - 40 \<rparr>"
    and b: "snd (checkAndExecuteStopLoss (sized_exchange 126) example_config stop_loss_grid []) =
     [Call_GetMarketPrice ''BTCUSDT'', Call_CloseShort ''BTCUSDT'' 2]"
    using C7_stop_loss_evaluation [OF h(1) p(1) h(4), of 126] by (simp_all add: ev)
  have b2: "Levels (fst (checkAndExecuteStopLoss (sized_exchange 126) example_config stop_loss_grid [])) ! 2 =
     Levels stop_loss_grid ! 2"
    using C7_stop_loss_evaluation [OF h(1) p(1) h(3), of 126] by (simp add: ev)
  have c2: "Levels (fst (checkAndExecuteStopLoss (refusing_exchange 94) example_config stop_loss_grid [])) ! 2 =
     Levels stop_loss_grid ! 2"
    and c: "snd (checkAndExecuteStopLoss (refusing_exchange 94) example_config stop_loss_grid []) =
     [Call_GetMarketPrice ''BTCUSDT'', Call_CloseLong ''BTCUSDT'' 3]"
    using C7_stop_loss_evaluation [OF h(1) p(2) h(3), of 94] by (simp_all add: ev)
  have d3: "Levels (fst (checkAndExecuteStopLoss (refusing_exchange 126) example_config stop_loss_grid [])) ! 3 =
     Levels stop_loss_grid ! 3"
    and d: "snd (checkAndExecuteStopLoss (refusing_exchange 126) example_config stop_loss_grid []) =
     [Call_GetMarketPrice ''BTCUSDT'', Call_CloseShort ''BTCUSDT'' 2]"
    using C7_stop_loss_evaluation [OF h(1) p(2) h(4), of 126] by (simp_all add: ev)
  have e2: "Levels (fst (checkAndExecuteStopLoss (sized_exchange 97) example_config stop_loss_grid [])) ! 2 =
     Levels stop_loss_grid ! 2"
    and e: "snd (checkAndExecuteStopLoss (sized_exchange 97) example_config stop_loss_grid []) =
     [Call_GetMarketPrice ''BTCUSDT'']"
    using C7_stop_loss_evaluation [OF h(1) p(1) h(3), of 97] by (simp_all add: ev)
  have g2: "Levels (fst (checkAndExecuteStopLoss (sized_exchange (371 / 4)) boundary_config
                  stop_loss_grid [])) ! 2 = Levels stop_loss_grid ! 2"
    and g: "snd (checkAndExecuteStopLoss (sized_exchange (371 / 4)) boundary_config stop_loss_grid []) =
     [Call_GetMarketPrice ''BTCUSDT'']"
    using C7_stop_loss_evaluation [OF h(2) p(3) h(3), of "371 / 4"] by (simp_all add: ev)
  have k: "(100 - 371 / 4) / 100 * 100 = StopLossPct boundary_config"
    "lossPercent (Levels stop_loss_grid ! 2) (371 / 4) < StopLossPct boundary_config"
    by (simp_all add: boundary_config_fields lossPercent_def f2 stop_loss_percentages)
  show ?thesis
    using h p(1) [of 94] f2(1) f3(1) a2 a3 a b3 b2 b c2 c d3 d e2 e k g2 g
    by (intro conjI)
qed

section \<open>Decision executor: the recorded order quantity\<close>

text \<open>
  C8 at a failing input: the decision for 100 units at level 2 exceeds the cap of 2 units.
  The order submitted to the exchange has the capped quantity of 2 units, but the level
  records the requested quantity of 100 units as its order quantity.
\<close>

theorem C8_level_records_requested_quantity:
  "Quantity_d oversized_decision = 100 \<and>
   maxQuantityPerLevel example_config oversized_decision example_grid = 2 \<and>
   placeGridLimitOrder ok_exchange example_config oversized_decision ''BUY'' example_grid [] =
     (None, recordOrder oversized_decision ''order-1'' example_grid,
      [Call_GetPositions, Call_PlaceLimitOrder capped_request]) \<and>
   Quantity_req capped_request = 2 \<and>
   OrderQuantity (Levels (recordOrder oversized_decision ''order-1'' example_grid) ! 2) = 100"
proof -
  have "maxQuantityPerLevel example_config oversized_decision example_grid = 2"
    by (simp add: maxQuantityPerLevel_def Let_def oversized_fields example_config_fields
          example_grid_fields example_levels_def example_level_def)
  then show ?thesis
    by (simp add: placeGridLimitOrder_oversized recordOrder_oversized oversized_fields
          capped_request_def example_levels_def)
qed

section \<open>Reconciler: fills and the invariant\<close>

lemma ok_exchange_fields:
  "GetMarketPrice ok_exchange cs symbol = Inr 100"
  "GetPositions ok_exchange cs = Inr []"
  "GetOpenOrders ok_exchange cs symbol = Inr []"
  "CancelAllOrders ok_exchange cs symbol = None"
  "GetWithTimeframes ok_exchange cs symbol = Inl ''no market data''"
  by (simp_all add: ok_exchange_def)

lemma syncGridState_pending_grid:
  "syncGridState ok_exchange example_config pending_grid [] =
     (pending_grid
        \<lparr> Levels := (Levels pending_grid)[2 := markFilled (Levels pending_grid ! 2)],
          TotalTrades := 1 \<rparr>,
      [Call_GetOpenOrders ''BTCUSDT'', Call_GetPositions, Call_GetMarketPrice ''BTCUSDT''])"
proof -
  have filled: "map (\<lambda>level. if orderGone (\<lambda>orderID. False) level
                            then markFilled level else level) (Levels pending_grid) =
                (Levels pending_grid)[2 := markFilled (Levels pending_grid ! 2)]"
    by (simp add: pending_grid_fields orderGone_def example_level_def numeral_2_eq_2)
  have count: "int (length (filter (orderGone (\<lambda>orderID. False)) (Levels pending_grid))) = 1"
    by (simp add: pending_grid_fields orderGone_def example_level_def)
  have none: "filter (stopLossTriggered example_config 100)
                ((Levels pending_grid)[2 := markFilled (Levels pending_grid ! 2)]) = []"
    by (simp add: pending_grid_fields stopLossTriggered_def markFilled_def lossPercent_def float_ops_0
          example_level_def example_config_fields numeral_2_eq_2)
  have loop: "stopLossLoop ok_exchange example_config 100
                ((Levels pending_grid)[2 := markFilled (Levels pending_grid ! 2)]) 1
                [Call_GetOpenOrders ''BTCUSDT'', Call_GetPositions, Call_GetMarketPrice ''BTCUSDT''] =
              ((Levels pending_grid)[2 := markFilled (Levels pending_grid ! 2)], 1,
               [Call_GetOpenOrders ''BTCUSDT'', Call_GetPositions, Call_GetMarketPrice ''BTCUSDT''])"
    by (simp add: pending_grid_fields numeral_2_eq_2 stopLossStep_eq stopLossTriggered_def
          markFilled_def lossPercent_def float_ops_0 example_level_def example_config_fields)
  show ?thesis
    by (simp add: syncGridState_def fillLoop_eq ok_exchange_fields example_config_fields
          filled count checkAndExecuteStopLoss_def loop pending_grid_fields(2))
qed

text \<open>
  C2 at a failing input: the grid with one order resting at level 2 satisfies the invariant.
  The order is no longer open at the exchange, so \<^verbatim>\<open>syncGridState\<close> marks the level filled;
  it keeps the order id of the level and the entry of the order book, and the invariant is
  broken: a filled level carries an order id, and the order book has a key that belongs to
  no pending level.
\<close>

theorem C2_fill_detection_breaks_invariant:
  "gridInvariant pending_grid \<and>
   State (Levels (fst (syncGridState ok_exchange example_config pending_grid [])) ! 2) = ''filled'' \<and>
   OrderID (Levels (fst (syncGridState ok_exchange example_config pending_grid [])) ! 2) =
     ''order-1'' \<and>
   OrderBook (fst (syncGridState ok_exchange example_config pending_grid [])) ''order-1'' = Some 2 \<and>
   pendingOrderIDs (Levels (fst (syncGridState ok_exchange example_config pending_grid []))) = [] \<and>
   \<not> gridInvariant (fst (syncGridState ok_exchange example_config pending_grid []))"
proof -
  have before: "gridInvariant pending_grid"
    by (simp add: gridInvariant_def pending_grid_fields levelConsistent_def pendingOrderIDs_def
          bookPointsAt_def example_level_def)
  have after: "Levels (fst (syncGridState ok_exchange example_config pending_grid [])) =
     [example_level 0 90 ''buy'', example_level 1 95 ''buy'',
      (example_level 2 100 ''buy'')
        \<lparr> State := ''filled'', OrderID := ''order-1'', OrderQuantity := 2, PositionEntry := 100 \<rparr>,
      example_level 3 105 ''sell'', example_level 4 110 ''sell'']"
    "OrderBook (fst (syncGridState ok_exchange example_config pending_grid [])) = [''order-1'' \<mapsto> 2]"
    by (simp_all add: syncGridState_pending_grid pending_grid_fields markFilled_def
          example_level_def numeral_2_eq_2)
  have broken: "\<not> gridInvariant (fst (syncGridState ok_exchange example_config pending_grid []))"
    by (simp add: gridInvariant_def after levelConsistent_def example_level_def)
  show ?thesis
    using before broken
    by (simp add: after pendingOrderIDs_def example_level_def)
qed

section \<open>Decision executor: adjusting the grid\<close>

lemma upt_5: "[0..<5] = [0, 1, 2, 3, 4]"
  by (simp add: upt_rec)

lemma atr_config_fields:
  "Symbol_cfg atr_config = ''BTCUSDT''" "GridCount atr_config = 5"
  "TotalInvestment atr_config = 1000" "Leverage_cfg atr_config = 1"
  "UseATRBounds atr_config = True" "Distribution atr_config = ''uniform''"
  by (simp_all add: atr_config_def example_config_def)

lemma moving_exchange_fields:
  "GetMarketPrice moving_exchange [] symbol = Inr 100"
  "cs \<noteq> [] \<Longrightarrow> GetMarketPrice moving_exchange cs symbol = Inr 200"
  "CancelAllOrders moving_exchange cs symbol = None"
  "GetWithTimeframes moving_exchange cs symbol = Inl ''no market data''"
  by (simp_all add: moving_exchange_def ok_exchange_def)

lemma price_200_fields:
  "GetMarketPrice price_200 cs symbol = Inr 200"
  "GetWithTimeframes price_200 cs symbol = Inl ''no market data''"
  by (simp_all add: price_200_def ok_exchange_def)

lemma initializeGridLevels_uniform_5:
  assumes "GridCount config = 5" and "Distribution config = ''uniform''"
      and "TotalInvestment config = 1000"
  shows "initializeGridLevels currentPrice config gs =
     Inr (gs\<lparr> Levels :=
       map (\<lambda>i. example_level (int i) (LowerPrice gs + real i * GridSpacing gs)
                  (if LowerPrice gs + real i * GridSpacing gs > currentPrice
                   then ''sell'' else ''buy'')) [0, 1, 2, 3, 4] \<rparr>)"
  using assms
  by (simp add: initializeGridLevels_def Let_def upt_5 weight_def newLevel_def example_level_def)

lemma InitializeGrid_atr_100:
  "InitializeGrid moving_exchange (fresh_trader atr_config) =
     (None, \<lparr> GridConfig = Some atr_config, gridState = Some atr_grid, calls = atr_calls \<rparr>)"
proof -
  have bounds: "calculateBounds moving_exchange 100 atr_config (NewGridState atr_config)
                  [Call_GetMarketPrice ''BTCUSDT''] =
                ((NewGridState atr_config)\<lparr> UpperPrice := 203 / 2, LowerPrice := 197 / 2 \<rparr>,
                 [Call_GetMarketPrice ''BTCUSDT'', Call_GetWithTimeframes ''BTCUSDT''])"
    by (simp add: calculateBounds_def calculateDefaultBounds_def Let_def atr_config_fields
          moving_exchange_fields)
  have levels: "initializeGridLevels 100 atr_config
       ((NewGridState atr_config)\<lparr> UpperPrice := 203 / 2, LowerPrice := 197 / 2,
                                    GridSpacing := 3 / 4 \<rparr>) =
     Inr ((NewGridState atr_config)\<lparr> UpperPrice := 203 / 2, LowerPrice := 197 / 2,
                                    GridSpacing := 3 / 4, Levels := atr_levels \<rparr>)"
    by (simp add: initializeGridLevels_uniform_5 atr_config_fields atr_levels_def)
  show ?thesis
    by (simp add: InitializeGrid_def fresh_trader_def atr_config_fields moving_exchange_fields
          bounds levels Let_def atr_grid_def atr_calls_def)
qed

lemma InitializeGrid_atr_200:
  "\<exists>gs. InitializeGrid price_200 (fresh_trader atr_config) =
          (None, \<lparr> GridConfig = Some atr_config, gridState = Some gs, calls = atr_calls \<rparr>) \<and>
        UpperPrice gs = 203 \<and> LowerPrice gs = 197 \<and> GridSpacing gs = 3 / 2"
proof -
  have bounds: "calculateBounds price_200 200 atr_config (NewGridState atr_config)
                  [Call_GetMarketPrice ''BTCUSDT''] =
                ((NewGridState atr_config)\<lparr> UpperPrice := 203, LowerPrice := 197 \<rparr>,
                 [Call_GetMarketPrice ''BTCUSDT'', Call_GetWithTimeframes ''BTCUSDT''])"
    by (simp add: calculateBounds_def calculateDefaultBounds_def Let_def atr_config_fields
          price_200_fields)
  show ?thesis
    by (simp add: InitializeGrid_def fresh_trader_def atr_config_fields price_200_fields
          bounds Let_def atr_calls_def
          initializeGridLevels_uniform_5 [OF atr_config_fields(2,6,3)])
qed

lemma adjustGrid_atr_grid:
  "adjustGrid moving_exchange atr_config atr_grid atr_calls =
     (None,
      atr_grid\<lparr> Levels := map (\<lambda>level. level\<lparr> Side := ''buy'' \<rparr>) atr_levels \<rparr>,
      atr_calls @ [Call_CancelAllOrders ''BTCUSDT'', Call_GetMarketPrice ''BTCUSDT''])"
proof -
  have cancel: "cancelAllGridOrders moving_exchange atr_config atr_grid atr_calls =
                  (None, atr_grid, atr_calls @ [Call_CancelAllOrders ''BTCUSDT''])"
    by (simp add: cancelAllGridOrders_def atr_config_fields moving_exchange_fields
          atr_grid_def NewGridState_def atr_levels_def example_level_def)
  have levels: "initializeGridLevels 200 atr_config atr_grid =
                  Inr (atr_grid\<lparr> Levels := map (\<lambda>level. level\<lparr> Side := ''buy'' \<rparr>) atr_levels \<rparr>)"
    by (simp add: initializeGridLevels_uniform_5 atr_config_fields atr_grid_def
          NewGridState_def atr_levels_def example_level_def)
  show ?thesis
    unfolding adjustGrid_def cancel
    by (simp add: levels atr_config_fields moving_exchange_fields)
qed

text \<open>
  C6 at a failing input: the grid is initialized at the price 100 with volatility-derived
  bounds (here the default bounds), which gives the range 98.5 to 101.5 and the spacing 0.75.
  The price moves to 200 and an \<^verbatim>\<open>adjust_grid\<close> decision succeeds. The levels are replaced,
  but the bounds and the spacing are the old ones and every new level lies between 98.5 and
  101.5, whereas the geometry computed at the price 200 has the range 197 to 203 and the
  spacing 1.5.
\<close>

theorem C6_adjust_grid_keeps_old_spacing:
  "InitializeGrid moving_exchange (fresh_trader atr_config) =
     (None, \<lparr> GridConfig = Some atr_config, gridState = Some atr_grid, calls = atr_calls \<rparr>) \<and>
   GridSpacing atr_grid = 3 / 4 \<and>
   GetMarketPrice moving_exchange (atr_calls @ [Call_CancelAllOrders ''BTCUSDT'']) ''BTCUSDT'' =
     Inr 200 \<and>
   fst (adjustGrid moving_exchange atr_config atr_grid atr_calls) = None \<and>
   GridSpacing (fst (snd (adjustGrid moving_exchange atr_config atr_grid atr_calls))) = 3 / 4 \<and>
   LowerPrice (fst (snd (adjustGrid moving_exchange atr_config atr_grid atr_calls))) = 197 / 2 \<and>
   UpperPrice (fst (snd (adjustGrid moving_exchange atr_config atr_grid atr_calls))) = 203 / 2 \<and>
   map Price (Levels (fst (snd (adjustGrid moving_exchange atr_config atr_grid atr_calls)))) =
     [197 / 2, 397 / 4, 100, 403 / 4, 203 / 2] \<and>
   (\<exists>gs. InitializeGrid price_200 (fresh_trader atr_config) =
           (None, \<lparr> GridConfig = Some atr_config, gridState = Some gs, calls = atr_calls \<rparr>) \<and>
         UpperPrice gs = 203 \<and> LowerPrice gs = 197 \<and> GridSpacing gs = 3 / 2)"
  using InitializeGrid_atr_200
  by (simp add: InitializeGrid_atr_100 adjustGrid_atr_grid)
     (simp add: atr_grid_def NewGridState_def atr_levels_def example_level_def
        moving_exchange_fields atr_calls_def)

section \<open>Further properties of the geometry\<close>

text \<open>
  The end-to-end scenario of the specification: price 100, bounds 90 to 110, five levels,
  uniform weights and 1000 USD give the spacing 5, levels at 90, 95, 100, 105 and 110 with
  200 USD each, and the sides buy, buy, buy, sell, sell (the level at the price is a buy).
\<close>

theorem end_to_end_scenario:
  "InitializeGrid ok_exchange (fresh_trader example_config) =
     (None, \<lparr> GridConfig = Some example_config, gridState = Some example_grid,
              calls = [Call_GetMarketPrice ''BTCUSDT'', Call_SetLeverage ''BTCUSDT'' 1] \<rparr>) \<and>
   GridSpacing example_grid = 5 \<and>
   map Price (Levels example_grid) = [90, 95, 100, 105, 110] \<and>
   map AllocatedUSD (Levels example_grid) = [200, 200, 200, 200, 200] \<and>
   map Side (Levels example_grid) = [''buy'', ''buy'', ''buy'', ''sell'', ''sell'']"
proof -
  have bounds: "calculateBounds ok_exchange 100 example_config (NewGridState example_config)
                  [Call_GetMarketPrice ''BTCUSDT''] =
                ((NewGridState example_config)\<lparr> UpperPrice := 110, LowerPrice := 90 \<rparr>,
                 [Call_GetMarketPrice ''BTCUSDT''])"
    by (simp add: calculateBounds_def example_config_fields)
  have levels: "initializeGridLevels 100 example_config
       ((NewGridState example_config)\<lparr> UpperPrice := 110, LowerPrice := 90, GridSpacing := 5 \<rparr>) =
     Inr ((NewGridState example_config)\<lparr> UpperPrice := 110, LowerPrice := 90, GridSpacing := 5,
                                        Levels := example_levels \<rparr>)"
    by (simp add: initializeGridLevels_uniform_5 example_config_fields example_levels_def)
  have "InitializeGrid ok_exchange (fresh_trader example_config) =
     (None, \<lparr> GridConfig = Some example_config, gridState = Some example_grid,
              calls = [Call_GetMarketPrice ''BTCUSDT'', Call_SetLeverage ''BTCUSDT'' 1] \<rparr>)"
    by (simp add: InitializeGrid_def fresh_trader_def example_config_fields ok_exchange_fields
          bounds levels Let_def example_grid_def)
  then show ?thesis
    by (simp add: example_grid_fields example_levels_def example_level_def)
qed

lemma Price_newLevel:
  "Price (newLevel currentPrice config gs weights totalWeight i) =
     LowerPrice gs + real i * GridSpacing gs"
  by (simp add: newLevel_def Let_def)

lemma cancelAllGridOrders_frame:
  "UpperPrice (fst (snd (cancelAllGridOrders ex gridConfig gs cs))) = UpperPrice gs \<and>
   LowerPrice (fst (snd (cancelAllGridOrders ex gridConfig gs cs))) = LowerPrice gs \<and>
   GridSpacing (fst (snd (cancelAllGridOrders ex gridConfig gs cs))) = GridSpacing gs \<and>
   TotalProfit (fst (snd (cancelAllGridOrders ex gridConfig gs cs))) = TotalProfit gs \<and>
   TotalTrades (fst (snd (cancelAllGridOrders ex gridConfig gs cs))) = TotalTrades gs \<and>
   WinningTrades (fst (snd (cancelAllGridOrders ex gridConfig gs cs))) = WinningTrades gs \<and>
   MaxDrawdown (fst (snd (cancelAllGridOrders ex gridConfig gs cs))) = MaxDrawdown gs \<and>
   DailyPnL (fst (snd (cancelAllGridOrders ex gridConfig gs cs))) = DailyPnL gs"
  by (simp add: cancelAllGridOrders_def Let_def split: option.splits)

text \<open>
  What a successful \<^verbatim>\<open>adjust_grid\<close> does: the levels are replaced by as many fresh levels
  as the configured level count, each empty and without an order id, priced from the stored
  lower price and spacing; the aggregate counters, the bounds and the spacing are kept.
\<close>

theorem adjustGrid_replaces_levels_and_keeps_counters:
  assumes "fst (adjustGrid ex gridConfig gs cs) = None"
  shows "length (Levels (fst (snd (adjustGrid ex gridConfig gs cs)))) = nat (GridCount gridConfig) \<and>
         list_all (\<lambda>level. State level = ''empty'' \<and> OrderID level = '''')
           (Levels (fst (snd (adjustGrid ex gridConfig gs cs)))) \<and>
         map Price (Levels (fst (snd (adjustGrid ex gridConfig gs cs)))) =
           map (\<lambda>i. LowerPrice gs + real i * GridSpacing gs) [0..<nat (GridCount gridConfig)] \<and>
         TotalProfit (fst (snd (adjustGrid ex gridConfig gs cs))) = TotalProfit gs \<and>
         TotalTrades (fst (snd (adjustGrid ex gridConfig gs cs))) = TotalTrades gs \<and>
         WinningTrades (fst (snd (adjustGrid ex gridConfig gs cs))) = WinningTrades gs \<and>
         MaxDrawdown (fst (snd (adjustGrid ex gridConfig gs cs))) = MaxDrawdown gs \<and>
         DailyPnL (fst (snd (adjustGrid ex gridConfig gs cs))) = DailyPnL gs \<and>
         UpperPrice (fst (snd (adjustGrid ex gridConfig gs cs))) = UpperPrice gs \<and>
         LowerPrice (fst (snd (adjustGrid ex gridConfig gs cs))) = LowerPrice gs \<and>
         GridSpacing (fst (snd (adjustGrid ex gridConfig gs cs))) = GridSpacing gs"
proof -
  define gs1 where "gs1 = fst (snd (cancelAllGridOrders ex gridConfig gs cs))"
  define cs1 where "cs1 = snd (snd (cancelAllGridOrders ex gridConfig gs cs))"
  note frame = cancelAllGridOrders_frame [of ex gridConfig gs cs, folded gs1_def]
  have run: "adjustGrid ex gridConfig gs cs =
      (case GetMarketPrice ex cs1 (Symbol_cfg gridConfig) of
         Inl e \<Rightarrow> (Some (ExchangeError (''failed to get market price: '' @ e)), gs1,
                   cs1 @ [Call_GetMarketPrice (Symbol_cfg gridConfig)])
       | Inr price \<Rightarrow>
           (case initializeGridLevels price gridConfig gs1 of
              Inl p \<Rightarrow> (Some p, gs1, cs1 @ [Call_GetMarketPrice (Symbol_cfg gridConfig)])
            | Inr gs2 \<Rightarrow> (None, gs2, cs1 @ [Call_GetMarketPrice (Symbol_cfg gridConfig)])))"
    unfolding gs1_def cs1_def by (simp add: adjustGrid_def case_prod_beta Let_def)
  from assms obtain price gs2 where
    ok: "initializeGridLevels price gridConfig gs1 = Inr gs2"
        "fst (snd (adjustGrid ex gridConfig gs cs)) = gs2"
    by (auto simp: run split: sum.splits)
  have count: "0 \<le> GridCount gridConfig"
    using ok(1) by (auto simp: initializeGridLevels_def split: if_splits)
  have gs2: "gs2 = gs1\<lparr> Levels :=
               map (newLevel price gridConfig gs1
                      (map (weight gridConfig) [0..<nat (GridCount gridConfig)])
                      (foldl (+) 0 (map (weight gridConfig) [0..<nat (GridCount gridConfig)])))
                 [0..<nat (GridCount gridConfig)] \<rparr>"
    using ok(1) count by (simp add: initializeGridLevels_def Let_def)
  have prices: "map Price (Levels gs2) =
      map (\<lambda>i. LowerPrice gs + real i * GridSpacing gs) [0..<nat (GridCount gridConfig)]"
    using frame by (simp add: gs2 Price_newLevel comp_def)
  have fresh: "list_all (\<lambda>level. State level = ''empty'' \<and> OrderID level = '''') (Levels gs2)"
    by (simp add: gs2 list_all_iff newLevel_def Let_def)
  show ?thesis
    unfolding ok(2) using prices fresh frame by (simp add: gs2)
qed

theorem adjustGrid_witness:
  "fst (adjustGrid moving_exchange atr_config atr_grid atr_calls) = None \<and>
   length (Levels (fst (snd (adjustGrid moving_exchange atr_config atr_grid atr_calls)))) = 5 \<and>
   GridSpacing (fst (snd (adjustGrid moving_exchange atr_config atr_grid atr_calls))) = 3 / 4 \<and>
   TotalTrades (fst (snd (adjustGrid moving_exchange atr_config atr_grid atr_calls))) = 0"
proof -
  have h: "fst (adjustGrid moving_exchange atr_config atr_grid atr_calls) = None"
    by (simp add: adjustGrid_atr_grid)
  show ?thesis
    using h adjustGrid_replaces_levels_and_keeps_counters [OF h]
    by (simp add: atr_config_fields atr_grid_def NewGridState_def)
qed

section \<open>Further properties of the risk limiter\<close>

lemma maxQuantityPerLevel_ignores_quantity:
  "maxQuantityPerLevel gridConfig (d\<lparr> Quantity_d := q \<rparr>) gs = maxQuantityPerLevel gridConfig d gs"
  by (simp add: maxQuantityPerLevel_def Let_def)

lemma cappedQuantity_le: "cappedQuantity gridConfig d gs \<le> maxQuantityPerLevel gridConfig d gs"
  by (simp add: cappedQuantity_def)

text \<open>
  The clamp: a successfully placed order with a positive price and total investment (and a
  level count other than 0) is submitted with the capped quantity, which is the per-level cap when the request exceeds
  it; clamping a clamped quantity changes nothing; and the level, when its index is in
  range, records the requested quantity of the decision.
\<close>

theorem placeGridLimitOrder_submits_capped_quantity:
  assumes "fst (placeGridLimitOrder ex gridConfig d side gs cs) = None"
      and "Price_d d > 0" and "TotalInvestment gridConfig > 0"
      and "GridCount gridConfig \<noteq> 0"
  shows "(\<exists>req. snd (snd (placeGridLimitOrder ex gridConfig d side gs cs)) =
                 cs @ [Call_GetPositions, Call_PlaceLimitOrder req] \<and>
               Quantity_req req = cappedQuantity gridConfig d gs \<and>
               Price_req req = Price_d d \<and> Side_req req = side) \<and>
         (Quantity_d d > maxQuantityPerLevel gridConfig d gs \<longrightarrow>
            cappedQuantity gridConfig d gs = maxQuantityPerLevel gridConfig d gs) \<and>
         cappedQuantity gridConfig (d\<lparr> Quantity_d := cappedQuantity gridConfig d gs \<rparr>) gs =
           cappedQuantity gridConfig d gs \<and>
         (0 \<le> LevelIndex d \<and> LevelIndex d < int (length (Levels gs)) \<longrightarrow>
            OrderQuantity (Levels (fst (snd (placeGridLimitOrder ex gridConfig d side gs cs)))
                             ! nat (LevelIndex d)) = Quantity_d d)"
proof -
  have v: "validateQuantity gridConfig d gs = Inr (cappedQuantity gridConfig d gs)"
    using assms
    by (auto simp: placeGridLimitOrder_def validateQuantity_def Let_def split: if_splits)
  have 1: "\<exists>req. snd (snd (placeGridLimitOrder ex gridConfig d side gs cs)) =
                 cs @ [Call_GetPositions, Call_PlaceLimitOrder req] \<and>
               Quantity_req req = cappedQuantity gridConfig d gs \<and>
               Price_req req = Price_d d \<and> Side_req req = side"
    using assms(1)
    by (auto simp: placeGridLimitOrder_def v checkTotalPositionLimit_def Let_def
          split: if_splits sum.splits)
  have 2: "Quantity_d d > maxQuantityPerLevel gridConfig d gs \<longrightarrow>
            cappedQuantity gridConfig d gs = maxQuantityPerLevel gridConfig d gs"
    by (simp add: cappedQuantity_def)
  have 3: "cappedQuantity gridConfig (d\<lparr> Quantity_d := cappedQuantity gridConfig d gs \<rparr>) gs =
           cappedQuantity gridConfig d gs"
    by (simp add: cappedQuantity_def maxQuantityPerLevel_ignores_quantity)
  have 4: "0 \<le> LevelIndex d \<and> LevelIndex d < int (length (Levels gs)) \<longrightarrow>
            OrderQuantity (Levels (fst (snd (placeGridLimitOrder ex gridConfig d side gs cs)))
                             ! nat (LevelIndex d)) = Quantity_d d"
    using assms(1)
    by (auto simp: placeGridLimitOrder_def v checkTotalPositionLimit_def Let_def recordOrder_def
          split: if_splits sum.splits)
  from 1 2 3 4 show ?thesis by blast
qed

theorem placeGridLimitOrder_capped_witness:
  "fst (placeGridLimitOrder ok_exchange example_config oversized_decision ''BUY''
          example_grid []) = None \<and>
   Price_d oversized_decision > 0 \<and> TotalInvestment example_config > 0 \<and>
   GridCount example_config \<noteq> 0 \<and>
   cappedQuantity example_config oversized_decision example_grid = 2 \<and>
   Quantity_d oversized_decision > maxQuantityPerLevel example_config oversized_decision example_grid"
proof -
  have h: "fst (placeGridLimitOrder ok_exchange example_config oversized_decision ''BUY''
                  example_grid []) = None"
    "Price_d oversized_decision > 0" "TotalInvestment example_config > 0"
    "GridCount example_config \<noteq> 0"
    by (simp_all add: placeGridLimitOrder_oversized oversized_fields example_config_fields)
  have m: "maxQuantityPerLevel example_config oversized_decision example_grid = 2"
    by (simp add: maxQuantityPerLevel_def Let_def oversized_fields example_config_fields
          example_grid_fields example_levels_def example_level_def)
  show ?thesis
    using h m placeGridLimitOrder_submits_capped_quantity [OF h]
    by (simp add: oversized_fields)
qed

text \<open>
  With at least one level and a leverage that is not negative, the absolute safety check
  never rejects: the capped value is at most the per-level value, which is at most the total
  investment times the leverage.
\<close>

theorem safety_check_never_rejects_capped_quantity:
  assumes "1 \<le> GridCount gridConfig" and "0 \<le> Leverage_cfg gridConfig"
  shows "validateQuantity gridConfig d gs =
           Inr (if Price_d d > 0 \<and> TotalInvestment gridConfig > 0
                then cappedQuantity gridConfig d gs else Quantity_d d)"
proof (cases "Price_d d > 0 \<and> TotalInvestment gridConfig > 0")
  case False
  then show ?thesis by (auto simp: validateQuantity_def)
next
  case True
  define p where "p = Price_d d"
  define T where "T = TotalInvestment gridConfig"
  define L where "L = real_of_int (Leverage_cfg gridConfig)"
  define G where "G = real_of_int (GridCount gridConfig)"
  have pos: "0 < p" "0 < T" "0 \<le> L" "1 \<le> G"
    using True assms by (simp_all add: p_def T_def L_def G_def)
  have "maxQuantityPerLevel gridConfig d gs \<le> T / G * L / p"
    by (simp add: maxQuantityPerLevel_def Let_def p_def T_def L_def G_def)
  then have le: "cappedQuantity gridConfig d gs \<le> T / G * L / p"
    using cappedQuantity_le [of gridConfig d gs] by linarith
  have "cappedQuantity gridConfig d gs * p \<le> (T / G * L / p) * p"
    by (rule mult_right_mono [OF le]) (simp add: less_imp_le pos(1))
  also have "(T / G * L / p) * p = T / G * L" using pos(1) by simp
  also have "\<dots> \<le> T * L"
  proof -
    have "T / G \<le> T / 1"
      by (rule divide_left_mono) (use pos in simp_all)
    then have "T / G \<le> T" by simp
    then show ?thesis by (rule mult_right_mono) (rule pos(3))
  qed
  also have "\<dots> \<le> T * L * 2" using pos by simp
  finally have "\<not> cappedQuantity gridConfig d gs * p > T * L * 2" by simp
  then show ?thesis
    using True by (simp add: validateQuantity_def Let_def p_def T_def L_def)
qed

theorem safety_check_never_rejects_witness:
  "1 \<le> GridCount example_config \<and> 0 \<le> Leverage_cfg example_config \<and>
   validateQuantity example_config oversized_decision example_grid = Inr 2"
proof -
  have h: "1 \<le> GridCount example_config" "0 \<le> Leverage_cfg example_config"
    by (simp_all add: example_config_fields)
  have c: "cappedQuantity example_config oversized_decision example_grid = 2"
    by (simp add: cappedQuantity_def maxQuantityPerLevel_def Let_def oversized_fields
          example_config_fields example_grid_fields example_levels_def example_level_def)
  show ?thesis
    using h safety_check_never_rejects_capped_quantity [OF h, of oversized_decision example_grid]
    by (simp add: c oversized_fields example_config_fields)
qed

text \<open>
  No partial commit: whenever \<^verbatim>\<open>placeGridLimitOrder\<close> returns an error (a rejection of the
  risk limiter or a failure of the exchange), the grid state is unchanged.
\<close>

theorem placeGridLimitOrder_error_keeps_state:
  assumes "fst (placeGridLimitOrder ex gridConfig d side gs cs) \<noteq> None"
  shows "fst (snd (placeGridLimitOrder ex gridConfig d side gs cs)) = gs"
  using assms
  by (auto simp: placeGridLimitOrder_def Let_def split: sum.splits prod.splits if_splits)

theorem placeGridLimitOrder_error_witness:
  "fst (placeGridLimitOrder ok_exchange negative_leverage_config small_decision ''BUY''
          example_grid []) \<noteq> None \<and>
   fst (snd (placeGridLimitOrder ok_exchange negative_leverage_config small_decision ''BUY''
               example_grid [])) = example_grid"
proof -
  have v: "validateQuantity negative_leverage_config small_decision example_grid =
             Inl (RiskViolation ''position value exceeds safety limit'')"
    by (simp add: validateQuantity_def cappedQuantity_negative_leverage Let_def)
       (simp add: small_decision_def negative_leverage_config_def example_config_def)
  have h: "fst (placeGridLimitOrder ok_exchange negative_leverage_config small_decision ''BUY''
                  example_grid []) \<noteq> None"
    by (simp add: placeGridLimitOrder_def v)
  show ?thesis
    using h placeGridLimitOrder_error_keeps_state [OF h] by simp
qed

section \<open>Operations that keep the invariant\<close>

lemma list_all_enumerate: "list_all P (enumerate 0 xs) \<longleftrightarrow> (\<forall>i<length xs. P (i, xs ! i))"
  by (simp add: list_all_length nth_enumerate_eq)

lemma set_pendingOrderIDs:
  "set (pendingOrderIDs levels) =
     {OrderID (levels ! i) |i. i < length levels \<and> State (levels ! i) = ''pending''}"
proof -
  have "set (pendingOrderIDs levels) = OrderID ` {level \<in> set levels. State level = ''pending''}"
    by (simp add: pendingOrderIDs_def)
  also have "\<dots> = {OrderID (levels ! i) |i. i < length levels \<and> State (levels ! i) = ''pending''}"
    by (auto simp: in_set_conv_nth)
  finally show ?thesis .
qed

lemma gridInvariant_nth:
  "gridInvariant gs \<longleftrightarrow>
     (\<forall>i<length (Levels gs). levelConsistent (Levels gs ! i)) \<and>
     dom (OrderBook gs) =
       {OrderID (Levels gs ! i) |i. i < length (Levels gs) \<and> State (Levels gs ! i) = ''pending''} \<and>
     (\<forall>i<length (Levels gs). State (Levels gs ! i) = ''pending'' \<longrightarrow>
          OrderBook gs (OrderID (Levels gs ! i)) = Some (int i))"
  unfolding gridInvariant_def list_all_enumerate set_pendingOrderIDs
  by (auto simp: list_all_length bookPointsAt_def)

lemma gridInvariant_resumeGrid:
  "gridInvariant gs \<Longrightarrow> gridInvariant (fst (snd (resumeGrid gs cs)))"
  by (simp add: gridInvariant_nth resumeGrid_def)

lemma gridInvariant_cancelAllGridOrders:
  assumes "gridInvariant gs"
  shows "gridInvariant (fst (snd (cancelAllGridOrders ex gridConfig gs cs)))"
proof (cases "CancelAllOrders ex cs (Symbol_cfg gridConfig)")
  case (Some e)
  then show ?thesis using assms by (simp add: cancelAllGridOrders_def)
next
  case None
  define f where "f = (\<lambda>level. if State level = ''pending'' then resetLevel level else level)"
  have run: "fst (snd (cancelAllGridOrders ex gridConfig gs cs)) =
               gs\<lparr> Levels := map f (Levels gs), OrderBook := Map.empty \<rparr>"
    using None by (simp add: cancelAllGridOrders_def f_def)
  have np: "State (f level) \<noteq> ''pending''" for level
    by (simp add: f_def resetLevel_def)
  have lc: "levelConsistent level \<Longrightarrow> levelConsistent (f level)" for level
    by (simp add: f_def resetLevel_def levelConsistent_def)
  show ?thesis
    unfolding run using assms by (simp add: gridInvariant_nth np lc)
qed

lemma gridInvariant_pauseGrid:
  "gridInvariant gs \<Longrightarrow> gridInvariant (fst (snd (pauseGrid ex gridConfig gs cs)))"
  using gridInvariant_cancelAllGridOrders [of gs ex gridConfig cs]
  by (simp add: pauseGrid_def case_prod_beta gridInvariant_nth)

lemma stopLossLoop_level:
  assumes "i < length levels"
  shows "OrderID (fst (stopLossLoop ex gridConfig currentPrice levels totalTrades cs) ! i) =
           OrderID (levels ! i) \<and>
         (State (fst (stopLossLoop ex gridConfig currentPrice levels totalTrades cs) ! i) = ''pending'') =
           (State (levels ! i) = ''pending'') \<and>
         (levelConsistent (levels ! i) \<longrightarrow>
            levelConsistent (fst (stopLossLoop ex gridConfig currentPrice levels totalTrades cs) ! i))"
  by (simp add: stopLossLoop_nth [OF assms] stopLevel_def stopLossTriggered_def levelConsistent_def)

lemma gridInvariant_checkAndExecuteStopLoss:
  assumes "gridInvariant gs"
  shows "gridInvariant (fst (checkAndExecuteStopLoss ex gridConfig gs cs))"
proof (cases "StopLossPct gridConfig > 0 \<and>
              (\<exists>currentPrice. GetMarketPrice ex cs (Symbol_cfg gridConfig) = Inr currentPrice)")
  case False
  then have "fst (checkAndExecuteStopLoss ex gridConfig gs cs) = gs"
    by (auto simp: checkAndExecuteStopLoss_def split: sum.splits)
  then show ?thesis using assms by simp
next
  case True
  then obtain currentPrice where
    p: "StopLossPct gridConfig > 0" "GetMarketPrice ex cs (Symbol_cfg gridConfig) = Inr currentPrice"
    by blast
  define levels' where
    "levels' = fst (stopLossLoop ex gridConfig currentPrice (Levels gs) (TotalTrades gs)
                      (cs @ [Call_GetMarketPrice (Symbol_cfg gridConfig)]))"
  have len: "length levels' = length (Levels gs)"
    by (simp add: levels'_def stopLossLoop_length)
  have lv: "i < length (Levels gs) \<Longrightarrow>
            OrderID (levels' ! i) = OrderID (Levels gs ! i) \<and>
            (State (levels' ! i) = ''pending'') = (State (Levels gs ! i) = ''pending'') \<and>
            (levelConsistent (Levels gs ! i) \<longrightarrow> levelConsistent (levels' ! i))" for i
    unfolding levels'_def by (rule stopLossLoop_level)
  have book: "OrderBook (fst (checkAndExecuteStopLoss ex gridConfig gs cs)) = OrderBook gs"
    and levels: "Levels (fst (checkAndExecuteStopLoss ex gridConfig gs cs)) = levels'"
    by (simp_all add: checkAndExecuteStopLoss_eq [OF p] levels'_def)
  have ids: "{OrderID (levels' ! i) |i. i < length (Levels gs) \<and> State (levels' ! i) = ''pending''} =
             {OrderID (Levels gs ! i) |i. i < length (Levels gs) \<and> State (Levels gs ! i) = ''pending''}"
  proof (intro set_eqI iffI)
    fix x
    assume "x \<in> {OrderID (levels' ! i) |i. i < length (Levels gs) \<and> State (levels' ! i) = ''pending''}"
    then obtain i where "i < length (Levels gs)" "State (levels' ! i) = ''pending''"
      "x = OrderID (levels' ! i)"
      by blast
    then have "x = OrderID (Levels gs ! i) \<and> i < length (Levels gs) \<and>
               State (Levels gs ! i) = ''pending''"
      using lv [of i] by simp
    then show "x \<in> {OrderID (Levels gs ! i) |i. i < length (Levels gs) \<and>
                      State (Levels gs ! i) = ''pending''}"
      by blast
  next
    fix x
    assume "x \<in> {OrderID (Levels gs ! i) |i. i < length (Levels gs) \<and>
                   State (Levels gs ! i) = ''pending''}"
    then obtain i where "i < length (Levels gs)" "State (Levels gs ! i) = ''pending''"
      "x = OrderID (Levels gs ! i)"
      by blast
    then have "x = OrderID (levels' ! i) \<and> i < length (Levels gs) \<and>
               State (levels' ! i) = ''pending''"
      using lv [of i] by simp
    then show "x \<in> {OrderID (levels' ! i) |i. i < length (Levels gs) \<and> State (levels' ! i) = ''pending''}"
      by blast
  qed
  show ?thesis
    using assms lv by (simp add: gridInvariant_nth book levels len ids)
qed

lemma gridInvariant_cancelGridOrder:
  assumes inv: "gridInvariant gs"
  shows "gridInvariant (fst (snd (cancelGridOrder ex d gs cs)))"
proof (cases "CancelOrder ex cs (Symbol_d d) (OrderID_d d) = None \<and>
              (\<exists>levelIdx. OrderBook gs (OrderID_d d) = Some levelIdx)")
  case False
  then have "fst (snd (cancelGridOrder ex d gs cs)) = gs"
    by (auto simp: cancelGridOrder_def Let_def split: option.splits)
  then show ?thesis using inv by simp
next
  case True
  then obtain levelIdx where ok: "CancelOrder ex cs (Symbol_d d) (OrderID_d d) = None"
    and book: "OrderBook gs (OrderID_d d) = Some levelIdx"
    by blast
  define levels where "levels = Levels gs"
  define oid where "oid = OrderID_d d"
  from inv have cons: "\<And>i. i < length levels \<Longrightarrow> levelConsistent (levels ! i)"
    and keys: "dom (OrderBook gs) =
                 {OrderID (levels ! i) |i. i < length levels \<and> State (levels ! i) = ''pending''}"
    and points: "\<And>i. i < length levels \<Longrightarrow> State (levels ! i) = ''pending'' \<Longrightarrow>
                   OrderBook gs (OrderID (levels ! i)) = Some (int i)"
    by (simp_all add: gridInvariant_nth levels_def)
  have "oid \<in> dom (OrderBook gs)" using book by (auto simp: oid_def)
  then obtain j where j: "j < length levels" "State (levels ! j) = ''pending''"
    "OrderID (levels ! j) = oid"
    unfolding keys by blast
  have idx: "levelIdx = int j"
    using points [OF j(1,2)] book j(3) by (simp add: oid_def)
  have unique: "k = j" if "k < length levels" "State (levels ! k) = ''pending''"
    "OrderID (levels ! k) = oid" for k
    using points [OF that(1,2)] book that(3) idx by (simp add: oid_def)
  define levels' where "levels' = levels[j := resetLevel (levels ! j)]"
  have run: "fst (snd (cancelGridOrder ex d gs cs)) =
               gs\<lparr> Levels := levels', OrderBook := (OrderBook gs)(oid := None) \<rparr>"
    using ok book j(1)
    by (simp add: cancelGridOrder_def Let_def idx levels'_def levels_def oid_def)
  have len: "length levels' = length levels" by (simp add: levels'_def)
  have at_j: "State (levels' ! j) = ''empty''" "OrderID (levels' ! j) = ''''"
    using j(1) by (simp_all add: levels'_def resetLevel_def)
  have other: "k \<noteq> j \<Longrightarrow> levels' ! k = levels ! k" for k
    by (simp add: levels'_def)
  have c': "levelConsistent (levels' ! k)" if "k < length levels" for k
  proof (cases "k = j")
    case True
    then show ?thesis using at_j by (simp add: levelConsistent_def)
  next
    case False
    then show ?thesis using cons [OF that] other by simp
  qed
  have pending': "State (levels' ! k) = ''pending'' \<longleftrightarrow> k \<noteq> j \<and> State (levels ! k) = ''pending''"
    for k
    using at_j other by (cases "k = j") simp_all
  have keys': "dom ((OrderBook gs)(oid := None)) =
                 {OrderID (levels' ! k) |k. k < length levels \<and> State (levels' ! k) = ''pending''}"
  proof (intro set_eqI iffI)
    fix x
    assume "x \<in> dom ((OrderBook gs)(oid := None))"
    then have x: "x \<in> dom (OrderBook gs)" "x \<noteq> oid" by (auto split: if_splits)
    then obtain k where k: "k < length levels" "State (levels ! k) = ''pending''"
      "OrderID (levels ! k) = x"
      unfolding keys by blast
    then have "k \<noteq> j" using x(2) j(3) by auto
    then have "x = OrderID (levels' ! k) \<and> k < length levels \<and> State (levels' ! k) = ''pending''"
      using k other pending' by simp
    then show "x \<in> {OrderID (levels' ! k) |k. k < length levels \<and> State (levels' ! k) = ''pending''}"
      by blast
  next
    fix x
    assume "x \<in> {OrderID (levels' ! k) |k. k < length levels \<and> State (levels' ! k) = ''pending''}"
    then obtain k where k: "k < length levels" "State (levels' ! k) = ''pending''"
      "x = OrderID (levels' ! k)"
      by blast
    then have kj: "k \<noteq> j" "State (levels ! k) = ''pending''" using pending' by auto
    then have xk: "x = OrderID (levels ! k)" using k(3) other by simp
    have "x \<noteq> oid" using unique [OF k(1) kj(2)] kj(1) xk by auto
    moreover have "x \<in> dom (OrderBook gs)" unfolding keys using k(1) kj(2) xk by blast
    ultimately show "x \<in> dom ((OrderBook gs)(oid := None))" by simp
  qed
  have points': "((OrderBook gs)(oid := None)) (OrderID (levels' ! k)) = Some (int k)"
    if "k < length levels" "State (levels' ! k) = ''pending''" for k
  proof -
    have kj: "k \<noteq> j" "State (levels ! k) = ''pending''" using that(2) pending' by auto
    then have "OrderID (levels ! k) \<noteq> oid" using unique [OF that(1) kj(2)] by auto
    then show ?thesis using points [OF that(1) kj(2)] other [OF kj(1)] by simp
  qed
  show ?thesis
    unfolding run using c' keys' points' by (simp add: gridInvariant_nth len)
qed

text \<open>
  Recording a new order keeps the invariant when the exchange returns a fresh, non-empty
  order id and the level addressed is not already pending (or is out of range).
\<close>

lemma gridInvariant_recordOrder:
  assumes inv: "gridInvariant gs"
      and fresh: "orderID \<noteq> ''''" "OrderBook gs orderID = None"
      and free: "0 \<le> LevelIndex d \<and> LevelIndex d < int (length (Levels gs)) \<longrightarrow>
                   State (Levels gs ! nat (LevelIndex d)) \<noteq> ''pending''"
  shows "gridInvariant (recordOrder d orderID gs)"
proof (cases "0 \<le> LevelIndex d \<and> LevelIndex d < int (length (Levels gs))")
  case False
  then have "recordOrder d orderID gs = gs" by (auto simp: recordOrder_def)
  then show ?thesis using inv by simp
next
  case True
  define levels where "levels = Levels gs"
  define j where "j = nat (LevelIndex d)"
  have j: "j < length levels" "int j = LevelIndex d" "State (levels ! j) \<noteq> ''pending''"
    using True free by (auto simp: j_def levels_def nat_less_iff)
  from inv have cons: "\<And>i. i < length levels \<Longrightarrow> levelConsistent (levels ! i)"
    and keys: "dom (OrderBook gs) =
                 {OrderID (levels ! i) |i. i < length levels \<and> State (levels ! i) = ''pending''}"
    and points: "\<And>i. i < length levels \<Longrightarrow> State (levels ! i) = ''pending'' \<Longrightarrow>
                   OrderBook gs (OrderID (levels ! i)) = Some (int i)"
    by (simp_all add: gridInvariant_nth levels_def)
  define levels' where
    "levels' = levels[j := (levels ! j)\<lparr> State := ''pending'', OrderID := orderID,
                                          OrderQuantity := Quantity_d d \<rparr>]"
  have run: "recordOrder d orderID gs =
               gs\<lparr> Levels := levels', OrderBook := (OrderBook gs)(orderID \<mapsto> int j) \<rparr>"
    using True by (simp add: recordOrder_def levels'_def levels_def j_def)
  have len: "length levels' = length levels" by (simp add: levels'_def)
  have at_j: "State (levels' ! j) = ''pending''" "OrderID (levels' ! j) = orderID"
    using j(1) by (simp_all add: levels'_def)
  have other: "k \<noteq> j \<Longrightarrow> levels' ! k = levels ! k" for k
    by (simp add: levels'_def)
  have old: "OrderID (levels ! k) \<noteq> orderID" if "k < length levels" "State (levels ! k) = ''pending''"
    for k
    using points [OF that] fresh(2) by auto
  have c': "levelConsistent (levels' ! k)" if "k < length levels" for k
  proof (cases "k = j")
    case True
    then show ?thesis using at_j fresh(1) by (simp add: levelConsistent_def)
  next
    case False
    then show ?thesis using cons [OF that] other by simp
  qed
  have pending': "State (levels' ! k) = ''pending'' \<longleftrightarrow> k = j \<or> State (levels ! k) = ''pending''"
    for k
    using at_j other by (cases "k = j") simp_all
  have keys': "dom ((OrderBook gs)(orderID \<mapsto> int j)) =
                 {OrderID (levels' ! k) |k. k < length levels \<and> State (levels' ! k) = ''pending''}"
  proof (intro set_eqI iffI)
    fix x
    assume "x \<in> dom ((OrderBook gs)(orderID \<mapsto> int j))"
    then consider "x = orderID" | "x \<in> dom (OrderBook gs)" by auto
    then show "x \<in> {OrderID (levels' ! k) |k. k < length levels \<and> State (levels' ! k) = ''pending''}"
    proof cases
      case 1
      then show ?thesis using at_j j(1) by blast
    next
      case 2
      then obtain k where k: "k < length levels" "State (levels ! k) = ''pending''"
        "OrderID (levels ! k) = x"
        unfolding keys by blast
      then have "k \<noteq> j" using j(3) by auto
      then have "x = OrderID (levels' ! k) \<and> k < length levels \<and>
                 State (levels' ! k) = ''pending''"
        using k other pending' by simp
      then show ?thesis by blast
    qed
  next
    fix x
    assume "x \<in> {OrderID (levels' ! k) |k. k < length levels \<and> State (levels' ! k) = ''pending''}"
    then obtain k where k: "k < length levels" "State (levels' ! k) = ''pending''"
      "x = OrderID (levels' ! k)"
      by blast
    show "x \<in> dom ((OrderBook gs)(orderID \<mapsto> int j))"
    proof (cases "k = j")
      case True
      then show ?thesis using k(3) at_j by simp
    next
      case False
      then have "State (levels ! k) = ''pending''" "x = OrderID (levels ! k)"
        using k pending' other by auto
      then have "x \<in> dom (OrderBook gs)" unfolding keys using k(1) by blast
      then show ?thesis by auto
    qed
  qed
  have points': "((OrderBook gs)(orderID \<mapsto> int j)) (OrderID (levels' ! k)) = Some (int k)"
    if "k < length levels" "State (levels' ! k) = ''pending''" for k
  proof (cases "k = j")
    case True
    then show ?thesis using at_j by simp
  next
    case False
    then have p: "State (levels ! k) = ''pending''" using that(2) pending' by auto
    show ?thesis using points [OF that(1) p] old [OF that(1) p] other [OF False] by simp
  qed
  show ?thesis
    unfolding run using c' keys' points' by (simp add: gridInvariant_nth len)
qed

text \<open>
  The invariant (a level has an order id exactly when it is pending, and the order book
  mirrors the pending levels) is kept by \<^verbatim>\<open>cancel_order\<close>, \<^verbatim>\<open>cancel_all_orders\<close>, \<^verbatim>\<open>pause_grid\<close>,
  \<^verbatim>\<open>resume_grid\<close> and the stop-loss evaluation, whatever the exchange answers, and by the
  state update of a placed order when the order id is new and not empty and the level is
  not already pending.
\<close>

theorem gridInvariant_kept_by_cancel_pause_resume_stop_loss:
  assumes "gridInvariant gs"
  shows "gridInvariant (fst (snd (cancelGridOrder ex d gs cs))) \<and>
         gridInvariant (fst (snd (cancelAllGridOrders ex gridConfig gs cs))) \<and>
         gridInvariant (fst (snd (pauseGrid ex gridConfig gs cs))) \<and>
         gridInvariant (fst (snd (resumeGrid gs cs))) \<and>
         gridInvariant (fst (checkAndExecuteStopLoss ex gridConfig gs cs)) \<and>
         (orderID \<noteq> '''' \<and> OrderBook gs orderID = None \<and>
          (0 \<le> LevelIndex d \<and> LevelIndex d < int (length (Levels gs)) \<longrightarrow>
             State (Levels gs ! nat (LevelIndex d)) \<noteq> ''pending'') \<longrightarrow>
            gridInvariant (recordOrder d orderID gs))"
proof (intro conjI impI)
  show "gridInvariant (fst (snd (cancelGridOrder ex d gs cs)))"
    by (rule gridInvariant_cancelGridOrder [OF assms])
  show "gridInvariant (fst (snd (cancelAllGridOrders ex gridConfig gs cs)))"
    by (rule gridInvariant_cancelAllGridOrders [OF assms])
  show "gridInvariant (fst (snd (pauseGrid ex gridConfig gs cs)))"
    by (rule gridInvariant_pauseGrid [OF assms])
  show "gridInvariant (fst (snd (resumeGrid gs cs)))"
    by (rule gridInvariant_resumeGrid [OF assms])
  show "gridInvariant (fst (checkAndExecuteStopLoss ex gridConfig gs cs))"
    by (rule gridInvariant_checkAndExecuteStopLoss [OF assms])
next
  assume h: "orderID \<noteq> '''' \<and> OrderBook gs orderID = None \<and>
          (0 \<le> LevelIndex d \<and> LevelIndex d < int (length (Levels gs)) \<longrightarrow>
             State (Levels gs ! nat (LevelIndex d)) \<noteq> ''pending'')"
  then have 1: "orderID \<noteq> ''''" and 2: "OrderBook gs orderID = None"
    and 3: "0 \<le> LevelIndex d \<and> LevelIndex d < int (length (Levels gs)) \<longrightarrow>
             State (Levels gs ! nat (LevelIndex d)) \<noteq> ''pending''"
    by simp_all
  show "gridInvariant (recordOrder d orderID gs)"
    by (rule gridInvariant_recordOrder [OF assms 1 2 3])
qed

lemma gridInvariant_pending_grid: "gridInvariant pending_grid"
  by (simp add: gridInvariant_def pending_grid_fields levelConsistent_def pendingOrderIDs_def
        bookPointsAt_def example_level_def)

theorem gridInvariant_kept_witness:
  "gridInvariant pending_grid \<and>
   gridInvariant (fst (snd (cancelGridOrder ok_exchange cancel_decision pending_grid []))) \<and>
   gridInvariant (fst (snd (cancelAllGridOrders ok_exchange example_config pending_grid []))) \<and>
   gridInvariant (fst (checkAndExecuteStopLoss ok_exchange example_config pending_grid [])) \<and>
   OrderBook pending_grid ''order-2'' = None \<and>
   State (Levels pending_grid ! nat (LevelIndex cancel_decision)) = ''empty'' \<and>
   gridInvariant (recordOrder cancel_decision ''order-2'' pending_grid)"
proof -
  have h: "''order-2'' \<noteq> ''''" "OrderBook pending_grid ''order-2'' = None"
    "State (Levels pending_grid ! nat (LevelIndex cancel_decision)) = ''empty''"
    by (simp_all add: pending_grid_fields cancel_decision_def example_level_def)
  show ?thesis
    using gridInvariant_pending_grid h
      gridInvariant_kept_by_cancel_pause_resume_stop_loss
        [OF gridInvariant_pending_grid, of ok_exchange cancel_decision "[]" example_config
           "''order-2''"]
    by simp
qed

section \<open>Further properties of the decision executor\<close>

text \<open>
  Cancelling an order that the order book knows resets its level to empty (no order id, no
  quantity) and removes the entry; cancelling the same order again changes nothing in the
  grid state, whatever the exchange answers the second time.
\<close>

theorem cancelGridOrder_resets_level_once:
  assumes "CancelOrder ex cs (Symbol_d d) (OrderID_d d) = None"
      and "OrderBook gs (OrderID_d d) = Some (int i)"
      and "i < length (Levels gs)"
  shows "cancelGridOrder ex d gs cs =
           (None,
            gs\<lparr> Levels := (Levels gs)[i := resetLevel (Levels gs ! i)],
                OrderBook := (OrderBook gs)(OrderID_d d := None) \<rparr>,
            cs @ [Call_CancelOrder (Symbol_d d) (OrderID_d d)]) \<and>
         State (Levels (fst (snd (cancelGridOrder ex d gs cs))) ! i) = ''empty'' \<and>
         OrderID (Levels (fst (snd (cancelGridOrder ex d gs cs))) ! i) = '''' \<and>
         OrderQuantity (Levels (fst (snd (cancelGridOrder ex d gs cs))) ! i) = 0 \<and>
         OrderBook (fst (snd (cancelGridOrder ex d gs cs))) (OrderID_d d) = None \<and>
         fst (snd (cancelGridOrder ex' d (fst (snd (cancelGridOrder ex d gs cs))) cs')) =
           fst (snd (cancelGridOrder ex d gs cs))"
proof -
  have run: "cancelGridOrder ex d gs cs =
           (None,
            gs\<lparr> Levels := (Levels gs)[i := resetLevel (Levels gs ! i)],
                OrderBook := (OrderBook gs)(OrderID_d d := None) \<rparr>,
            cs @ [Call_CancelOrder (Symbol_d d) (OrderID_d d)])"
    using assms by (simp add: cancelGridOrder_def Let_def)
  have again: "fst (snd (cancelGridOrder ex' d gs' cs')) = gs'"
    if "OrderBook gs' (OrderID_d d) = None" for gs'
    using that by (simp add: cancelGridOrder_def Let_def split: option.splits)
  show ?thesis
    unfolding run using assms(3) by (simp add: resetLevel_def again)
qed

theorem cancelGridOrder_witness:
  "CancelOrder ok_exchange [] (Symbol_d cancel_decision) (OrderID_d cancel_decision) = None \<and>
   OrderBook pending_grid (OrderID_d cancel_decision) = Some (int 2) \<and>
   2 < length (Levels pending_grid) \<and>
   fst (snd (cancelGridOrder ok_exchange cancel_decision pending_grid [])) = example_grid"
proof -
  have h: "CancelOrder ok_exchange [] (Symbol_d cancel_decision) (OrderID_d cancel_decision) = None"
    "OrderBook pending_grid (OrderID_d cancel_decision) = Some (int 2)"
    "2 < length (Levels pending_grid)"
    by (simp_all add: ok_exchange_def cancel_decision_def pending_grid_fields)
  have "fst (snd (cancelGridOrder ok_exchange cancel_decision pending_grid [])) =
          pending_grid\<lparr> Levels := (Levels pending_grid)[2 := resetLevel (Levels pending_grid ! 2)],
                        OrderBook := (OrderBook pending_grid)(OrderID_d cancel_decision := None) \<rparr>"
    using cancelGridOrder_resets_level_once [OF h, of ok_exchange "[]"] by simp
  also have "\<dots> = example_grid"
    by (simp add: pending_grid_def example_grid_def NewGridState_def example_levels_def
          example_level_def resetLevel_def cancel_decision_def numeral_2_eq_2)
  finally show ?thesis using h by simp
qed

text \<open>
  A \<^verbatim>\<open>hold\<close> decision and a decision with an unrecognized action change nothing and report
  no error; no request is sent to the exchange.
\<close>

theorem hold_and_unknown_actions_are_no_ops:
  assumes "Action d \<notin> set [''place_buy_limit'', ''place_sell_limit'', ''cancel_order'',
                            ''cancel_all_orders'', ''pause_grid'', ''resume_grid'',
                            ''adjust_grid'', ''close_long'', ''close_short'']"
  shows "executeGridDecision ex d a = (None, a)"
  using assms by (simp add: executeGridDecision_def)

theorem hold_and_unknown_witness:
  "Action hold_decision = ''hold'' \<and> Action unknown_decision = ''rebalance'' \<and>
   executeGridDecision ok_exchange hold_decision (running_trader pending_grid) =
     (None, running_trader pending_grid) \<and>
   executeGridDecision ok_exchange unknown_decision (running_trader pending_grid) =
     (None, running_trader pending_grid)"
proof -
  have h: "Action hold_decision \<notin> set [''place_buy_limit'', ''place_sell_limit'', ''cancel_order'',
                            ''cancel_all_orders'', ''pause_grid'', ''resume_grid'',
                            ''adjust_grid'', ''close_long'', ''close_short'']"
    "Action unknown_decision \<notin> set [''place_buy_limit'', ''place_sell_limit'', ''cancel_order'',
                            ''cancel_all_orders'', ''pause_grid'', ''resume_grid'',
                            ''adjust_grid'', ''close_long'', ''close_short'']"
    by (simp_all add: hold_decision_def unknown_decision_def cancel_decision_def)
  show ?thesis
    using hold_and_unknown_actions_are_no_ops [OF h(1), of ok_exchange "running_trader pending_grid"]
      hold_and_unknown_actions_are_no_ops [OF h(2), of ok_exchange "running_trader pending_grid"]
    by (simp add: hold_decision_def unknown_decision_def cancel_decision_def)
qed

section \<open>Further properties: the total position limit, pause and resume\<close>

text \<open>
  The total position limit: when the value of the position at the exchange (size in absolute
  value times the mark price, or else the entry price; nothing when the fetch fails) plus the
  value of the pending orders plus the value of the validated order exceeds the total
  investment times the leverage (the level count being other than 0), the order is rejected with a risk violation, the grid state
  is unchanged and only the positions have been requested from the exchange.
\<close>

theorem total_position_limit_rejects:
  assumes "GridCount gridConfig \<noteq> 0"
      and "validateQuantity gridConfig d gs = Inr quantity"
      and "(case GetPositions ex cs of
              Inl e \<Rightarrow> 0
            | Inr positions \<Rightarrow> positionValueLoop (Symbol_d d) positions 0)
           + pendingValue (Levels gs) + quantity * Price_d d
           > TotalInvestment gridConfig * real_of_int (Leverage_cfg gridConfig)"
  shows "placeGridLimitOrder ex gridConfig d side gs cs =
           (Some (RiskViolation ''total position value would exceed limit''), gs,
            cs @ [Call_GetPositions])"
  using assms
  by (simp add: placeGridLimitOrder_def checkTotalPositionLimit_def Let_def not_le)

theorem total_position_limit_witness:
  "GridCount example_config \<noteq> 0 \<and>
   validateQuantity example_config oversized_decision example_grid = Inr 2 \<and>
   GetPositions exposed_exchange [] =
     Inr [\<lparr> symbol_key = Some ''BTCUSDT'', positionAmt = Some (- 9), markPrice = Some 100,
            entryPrice = None, unRealizedProfit = None \<rparr>] \<and>
   positionValueLoop (Symbol_d oversized_decision)
     [\<lparr> symbol_key = Some ''BTCUSDT'', positionAmt = Some (- 9), markPrice = Some 100,
        entryPrice = None, unRealizedProfit = None \<rparr>] 0 = 900 \<and>
   placeGridLimitOrder exposed_exchange example_config oversized_decision ''BUY'' example_grid [] =
     (Some (RiskViolation ''total position value would exceed limit''), example_grid,
      [Call_GetPositions])"
proof -
  have p: "GetPositions exposed_exchange [] =
     Inr [\<lparr> symbol_key = Some ''BTCUSDT'', positionAmt = Some (- 9), markPrice = Some 100,
            entryPrice = None, unRealizedProfit = None \<rparr>]"
    by (simp add: exposed_exchange_def ok_exchange_def)
  have v: "positionValueLoop (Symbol_d oversized_decision)
     [\<lparr> symbol_key = Some ''BTCUSDT'', positionAmt = Some (- 9), markPrice = Some 100,
        entryPrice = None, unRealizedProfit = None \<rparr>] 0 = 900"
    by (simp add: oversized_fields)
  have h: "(case GetPositions exposed_exchange [] of
              Inl e \<Rightarrow> 0
            | Inr positions \<Rightarrow> positionValueLoop (Symbol_d oversized_decision) positions 0)
           + pendingValue (Levels example_grid) + 2 * Price_d oversized_decision
           > TotalInvestment example_config * real_of_int (Leverage_cfg example_config)"
    unfolding p
    by (simp add: v example_grid_fields pendingValue_example_levels example_config_fields)
       (simp add: oversized_fields)
  have g: "GridCount example_config \<noteq> 0"
    by (simp add: example_config_fields)
  show ?thesis
    using g p v validateQuantity_oversized
      total_position_limit_rejects [OF g validateQuantity_oversized h, of "''BUY''"]
    by simp
qed

text \<open>
  \<^verbatim>\<open>pause_grid\<close> cancels as \<^verbatim>\<open>cancel_all_orders\<close> does, sets the pause flag and reports no
  error, also when the cancellation failed; \<^verbatim>\<open>resume_grid\<close> clears the flag and changes
  nothing else.
\<close>

theorem pause_and_resume_set_the_flag:
  "pauseGrid ex gridConfig gs cs =
     (None, (fst (snd (cancelAllGridOrders ex gridConfig gs cs)))\<lparr> IsPaused := True \<rparr>,
      cs @ [Call_CancelAllOrders (Symbol_cfg gridConfig)]) \<and>
   IsPaused (fst (snd (pauseGrid ex gridConfig gs cs))) \<and>
   \<not> IsPaused (fst (snd (resumeGrid gs cs))) \<and>
   fst (resumeGrid gs cs) = None \<and>
   snd (snd (resumeGrid gs cs)) = cs \<and>
   Levels (fst (snd (resumeGrid gs cs))) = Levels gs \<and>
   OrderBook (fst (snd (resumeGrid gs cs))) = OrderBook gs \<and>
   (fst (snd (resumeGrid gs cs)))\<lparr> IsPaused := IsPaused gs \<rparr> = gs"
  by (simp add: pauseGrid_def resumeGrid_def cancelAllGridOrders_def Let_def case_prod_beta
        split: option.splits)

end
